theory Spec2Isabelle
  imports Complex_Main "HOL-Library.Word" "HOL-Library.Sublist"
begin

section \<open>Python values and exceptions\<close>

text \<open>
  The exceptions the modelled code can raise. A function that can raise returns
  \<open>error + 'a\<close>, with \<open>Inl\<close> for the exception. \<open>InvalidDimensionsError\<close>, with
  the name of the offending bound, is the error of the tile-grid sizing below.
\<close>

datatype error = ValueError | AttributeError | TypeError | IndexError | InvalidDimensionsError string

type_synonym rgb = "int \<times> int \<times> int"
type_synonym lab = "real \<times> real \<times> real"
type_synonym uint8 = "8 word"

text \<open>Indexing a Python list: \<open>xs[i]\<close> with a non-negative index.\<close>

definition getitem :: "'a list \<Rightarrow> nat \<Rightarrow> error + 'a" where
  "getitem xs i = (if i < length xs then Inr (xs ! i) else Inl IndexError)"

text \<open>\<open>str.lower()\<close>, on ASCII letters.\<close>

definition lower_char :: "char \<Rightarrow> char" where
  "lower_char c =
     (case map_of (zip ''ABCDEFGHIJKLMNOPQRSTUVWXYZ'' ''abcdefghijklmnopqrstuvwxyz'') c of
        Some l \<Rightarrow> l
      | None \<Rightarrow> c)"

definition lower :: "string \<Rightarrow> string" where
  "lower s = map lower_char s"

text \<open>A colour whose channels are 8-bit values.\<close>

definition channel_ok :: "rgb \<Rightarrow> bool" where
  "channel_ok c = (case c of (r, g, b) \<Rightarrow> 0 \<le> r \<and> r \<le> 255 \<and> 0 \<le> g \<and> g \<le> 255 \<and> 0 \<le> b \<and> b \<le> 255)"

section \<open>palette.py: MinecraftPalette\<close>

text \<open>The class attribute \<open>CARPET_COLORS\<close>: the 61 default colours.\<close>

definition default_CARPET_COLORS :: "string list" where
  "default_CARPET_COLORS =
    [''#DC0000'', ''#A3292A'', ''#842C2C'', ''#8A4243'', ''#7A3327'', ''#600100'', ''#4F1519'',
     ''#BA6D2C'', ''#A0721F'', ''#89461F'', ''#6F4A2A'', ''#7B663E'', ''#58412C'', ''#825E42'',
     ''#745C54'', ''#B4988A'', ''#BA967E'', ''#D5C98C'', ''#C5C52C'', ''#D7CD42'', ''#6D9930'',
     ''#6DB015'', ''#58642D'', ''#586D2C'', ''#414624'', ''#006A00'', ''#00BB32'', ''#6D9081'',
     ''#119B72'', ''#327A78'', ''#126C73'', ''#416D84'', ''#5884BA'', ''#3F6EDC'', ''#3737DC'',
     ''#2C4199'', ''#4FBCB7'', ''#8A8ADC'', ''#8D909E'', ''#605D77'', ''#41354F'', ''#9941BA'',
     ''#6D3699'', ''#D06D8E'', ''#7F3653'', ''#804B5D'', ''#693E4B'', ''#4A2535'', ''#DCDCDC'',
     ''#DCD9D3'', ''#ABABAB'', ''#909090'', ''#848484'', ''#606060'', ''#565656'', ''#4B4F4F'',
     ''#414141'', ''#151515'', ''#1F120D'', ''#31231E'', ''#412B1E'']"

record MinecraftPalette =
  CARPET_COLORS :: "string list"
  colors_rgb :: "rgb list"
  colors_lab :: "lab list"

text \<open>
  \<open>int(s, 16)\<close> on the slices \<open>hex_to_rgb\<close> takes, which have at most two
  characters. Python accepts one or two hexadecimal digits of either case, a digit after
  a sign, and a digit with a blank before or after it; everything else raises
  \<open>ValueError\<close>. A string is a list of code points below 256; the blanks are those
  that \<open>int\<close> strips among them.
\<close>

definition hex_digit :: "char \<Rightarrow> int option" where
  "hex_digit c = map_of
     [(CHR ''0'', 0), (CHR ''1'', 1), (CHR ''2'', 2), (CHR ''3'', 3), (CHR ''4'', 4),
      (CHR ''5'', 5), (CHR ''6'', 6), (CHR ''7'', 7), (CHR ''8'', 8), (CHR ''9'', 9),
      (CHR ''a'', 10), (CHR ''b'', 11), (CHR ''c'', 12), (CHR ''d'', 13), (CHR ''e'', 14),
      (CHR ''f'', 15), (CHR ''A'', 10), (CHR ''B'', 11), (CHR ''C'', 12), (CHR ''D'', 13),
      (CHR ''E'', 14), (CHR ''F'', 15)] c"

definition is_blank :: "char \<Rightarrow> bool" where
  "is_blank c = (c \<in> set [CHR 0x09, CHR 0x0A, CHR 0x0B, CHR 0x0C, CHR 0x0D, CHR 0x20,
                           CHR 0x85, CHR 0xA0])"

fun int16 :: "string \<Rightarrow> error + int" where
  "int16 [a] = (case hex_digit a of Some d \<Rightarrow> Inr d | None \<Rightarrow> Inl ValueError)"
| "int16 [a, b] =
     (case hex_digit b of
        Some e \<Rightarrow>
          (case hex_digit a of
             Some d \<Rightarrow> Inr (16 * d + e)
           | None \<Rightarrow>
               if a = CHR ''+'' \<or> is_blank a then Inr e
               else if a = CHR ''-'' then Inr (- e)
               else Inl ValueError)
      | None \<Rightarrow>
          (case hex_digit a of
             Some d \<Rightarrow> if is_blank b then Inr d else Inl ValueError
           | None \<Rightarrow> Inl ValueError))"
| "int16 s = Inl ValueError"

text \<open>\<open>hex_color.lstrip('#')\<close>\<close>

definition lstrip_hash :: "string \<Rightarrow> string" where
  "lstrip_hash s = dropWhile (\<lambda>c. c = CHR ''#'') s"

text \<open>\<open>tuple(int(hex_color[i:i+2], 16) for i in (0, 2, 4))\<close>\<close>

definition hex_to_rgb :: "string \<Rightarrow> error + rgb" where
  "hex_to_rgb hex_color =
     (let s = lstrip_hash hex_color in
      case int16 (take 2 s) of
        Inl e \<Rightarrow> Inl e
      | Inr r \<Rightarrow>
         (case int16 (take 2 (drop 2 s)) of
            Inl e \<Rightarrow> Inl e
          | Inr g \<Rightarrow>
             (case int16 (take 2 (drop 4 s)) of
                Inl e \<Rightarrow> Inl e
              | Inr b \<Rightarrow> Inr (r, g, b))))"

text \<open>
  \<open>rgb_to_lab\<close> normalises the channels and calls \<open>cspace_convert\<close> of the
  colorspacious library, which is not part of the repository: the conversion is the
  parameter \<open>rgb_to_lab\<close> of every definition that needs it. Lab components and
  distances are real numbers.
\<close>

text \<open>The loop of \<open>__init__\<close> over \<open>CARPET_COLORS\<close>; the first exception ends it.\<close>

fun convert_colors :: "(rgb \<Rightarrow> lab) \<Rightarrow> string list \<Rightarrow> error + (rgb list \<times> lab list)" where
  "convert_colors rgb_to_lab [] = Inr ([], [])"
| "convert_colors rgb_to_lab (hex_color # rest) =
     (case hex_to_rgb hex_color of
        Inl e \<Rightarrow> Inl e
      | Inr c \<Rightarrow>
         (case convert_colors rgb_to_lab rest of
            Inl e \<Rightarrow> Inl e
          | Inr (cs, ls) \<Rightarrow> Inr (c # cs, rgb_to_lab c # ls)))"

text \<open>\<open>MinecraftPalette.__init__\<close>, run on an object whose \<open>CARPET_COLORS\<close> is \<open>colors\<close>.\<close>

definition MinecraftPalette_init :: "(rgb \<Rightarrow> lab) \<Rightarrow> string list \<Rightarrow> error + MinecraftPalette" where
  "MinecraftPalette_init rgb_to_lab colors =
     (if colors = [] then Inl ValueError
      else case convert_colors rgb_to_lab colors of
             Inl e \<Rightarrow> Inl e
           | Inr (cs, ls) \<Rightarrow>
               Inr \<lparr>CARPET_COLORS = colors, colors_rgb = cs, colors_lab = ls\<rparr>)"

text \<open>
  \<open>np.argmin\<close>: the index of the first occurrence of the minimum; \<open>ValueError\<close> on an
  empty array.
\<close>

fun argmin_from :: "real \<Rightarrow> nat \<Rightarrow> nat \<Rightarrow> real list \<Rightarrow> nat" where
  "argmin_from best besti i [] = besti"
| "argmin_from best besti i (d # ds) =
     (if d < best then argmin_from d i (Suc i) ds else argmin_from best besti (Suc i) ds)"

definition argmin :: "real list \<Rightarrow> error + nat" where
  "argmin ds = (case ds of [] \<Rightarrow> Inl ValueError | d # rest \<Rightarrow> Inr (argmin_from d 0 1 rest))"

text \<open>
  One row of \<open>np.sqrt(np.sum((colors - target) ** 2, axis=1))\<close>: integer
  arithmetic under the root for RGB, real arithmetic for Lab.
\<close>

fun rgb_distance :: "rgb \<Rightarrow> rgb \<Rightarrow> real" where
  "rgb_distance (tr, tg, tb) (r, g, b) = sqrt (of_int ((r - tr)\<^sup>2 + (g - tg)\<^sup>2 + (b - tb)\<^sup>2))"

fun lab_distance :: "lab \<Rightarrow> lab \<Rightarrow> real" where
  "lab_distance (tL, ta, tb) (L, a, b) = sqrt ((L - tL)\<^sup>2 + (a - ta)\<^sup>2 + (b - tb)\<^sup>2)"

definition rgb_distances :: "rgb list \<Rightarrow> rgb \<Rightarrow> real list" where
  "rgb_distances colors target = map (rgb_distance target) colors"

definition lab_distances :: "lab list \<Rightarrow> lab \<Rightarrow> real list" where
  "lab_distances colors target = map (lab_distance target) colors"

text \<open>The common tail of both lookups: read the colour and its hex name at the index.\<close>

definition closest_at :: "MinecraftPalette \<Rightarrow> nat \<Rightarrow> error + (nat \<times> rgb \<times> string)" where
  "closest_at p closest_idx =
     (case getitem (colors_rgb p) closest_idx of
        Inl e \<Rightarrow> Inl e
      | Inr closest_rgb \<Rightarrow>
         (case getitem (CARPET_COLORS p) closest_idx of
            Inl e \<Rightarrow> Inl e
          | Inr closest_hex \<Rightarrow> Inr (closest_idx, closest_rgb, closest_hex)))"

definition find_closest_color_rgb :: "MinecraftPalette \<Rightarrow> rgb \<Rightarrow> error + (nat \<times> rgb \<times> string)" where
  "find_closest_color_rgb p target_rgb =
     (case argmin (rgb_distances (colors_rgb p) target_rgb) of
        Inl e \<Rightarrow> Inl e
      | Inr closest_idx \<Rightarrow> closest_at p closest_idx)"

definition find_closest_color_lab ::
  "(rgb \<Rightarrow> lab) \<Rightarrow> MinecraftPalette \<Rightarrow> rgb \<Rightarrow> error + (nat \<times> rgb \<times> string)" where
  "find_closest_color_lab rgb_to_lab p target_rgb =
     (case argmin (lab_distances (colors_lab p) (rgb_to_lab target_rgb)) of
        Inl e \<Rightarrow> Inl e
      | Inr closest_idx \<Rightarrow> closest_at p closest_idx)"

definition find_closest_color ::
  "(rgb \<Rightarrow> lab) \<Rightarrow> MinecraftPalette \<Rightarrow> rgb \<Rightarrow> string \<Rightarrow> error + (nat \<times> rgb \<times> string)" where
  "find_closest_color rgb_to_lab p target_rgb method =
     (if lower method = ''lab'' then find_closest_color_lab rgb_to_lab p target_rgb
      else find_closest_color_rgb p target_rgb)"


section \<open>numpy arrays\<close>

text \<open>
  An array is its shape together with a store from index triples \<open>(y, x, c)\<close> to
  values. The shape is \<open>(height, width, k)\<close> when \<open>depth\<close> is \<open>Some k\<close> and
  \<open>(height, width)\<close>, a two-dimensional array, when it is \<open>None\<close> (its values
  are then the cells with \<open>c = 0\<close>). The store is defined on all integer
  coordinates; the array proper is the part with \<open>0 \<le> y < height\<close>,
  \<open>0 \<le> x < width\<close> and \<open>c\<close> below the number of channels. An access outside
  that part, where numpy would wrap a negative index around or raise, shows in the model
  as an access to a cell that is not part of the array.

  The working buffer of the ditherer is a \<open>float64\<close> array. It starts from 8-bit
  integers and only ever receives sums of products of integers between -255 and 255 with
  multiples of 1/16, clipped to \<open>[0, 255]\<close>: every such value is a binary fraction
  that \<open>float64\<close> holds exactly, so its cells are rational numbers and the
  arithmetic on them is exact.
\<close>

record 'a ndarray =
  height :: nat
  width :: nat
  depth :: "nat option"
  cell :: "int \<times> int \<times> nat \<Rightarrow> 'a"

text \<open>The cells of an array of shape \<open>(height, width, 3)\<close>.\<close>

definition in_array :: "'a ndarray \<Rightarrow> int \<times> int \<times> nat \<Rightarrow> bool" where
  "in_array a i = (case i of (y, x, c) \<Rightarrow>
     0 \<le> y \<and> y < int (height a) \<and> 0 \<le> x \<and> x < int (width a) \<and> c < 3)"

text \<open>\<open>np.clip(v, lo, hi)\<close>\<close>

definition np_clip :: "rat \<Rightarrow> rat \<Rightarrow> rat \<Rightarrow> rat" where
  "np_clip v lo hi = min (max v lo) hi"

text \<open>\<open>.astype(int)\<close> on a float: truncation toward zero.\<close>

definition astype_int :: "rat \<Rightarrow> int" where
  "astype_int v = (if 0 \<le> v then \<lfloor>v\<rfloor> else \<lceil>v\<rceil>)"

text \<open>\<open>.astype(np.float64)\<close> on a \<open>uint8\<close> array.\<close>

definition astype_float64 :: "uint8 ndarray \<Rightarrow> rat ndarray" where
  "astype_float64 a =
     \<lparr>height = height a, width = width a, depth = depth a, cell = (\<lambda>i. of_nat (unat (cell a i)))\<rparr>"

text \<open>\<open>np.zeros_like(a, dtype=np.uint8)\<close>\<close>

definition zeros_like :: "'a ndarray \<Rightarrow> uint8 ndarray" where
  "zeros_like a = \<lparr>height = height a, width = width a, depth = depth a, cell = (\<lambda>i. 0)\<rparr>"

text \<open>
  \<open>output_array[y, x] = closest_rgb\<close> on a \<open>uint8\<close> array: each component is cast
  to 8 bits.
\<close>

definition set_pixel :: "uint8 ndarray \<Rightarrow> int \<Rightarrow> int \<Rightarrow> rgb \<Rightarrow> uint8 ndarray" where
  "set_pixel a y x color = (case color of (r, g, b) \<Rightarrow>
     a\<lparr>cell := (cell a)((y, x, 0) := word_of_int r, (y, x, 1) := word_of_int g,
                      (y, x, 2) := word_of_int b)\<rparr>)"

text \<open>\<open>tuple(a[y, x])\<close> on a \<open>uint8\<close> array, as integers.\<close>

definition pixel_at :: "uint8 ndarray \<Rightarrow> int \<Rightarrow> int \<Rightarrow> rgb" where
  "pixel_at a y x = (uint (cell a (y, x, 0)), uint (cell a (y, x, 1)), uint (cell a (y, x, 2)))"

text \<open>
  A colour as it reads back after being stored in a \<open>uint8\<close> array: each component
  modulo 256.
\<close>

definition as_uint8 :: "rgb \<Rightarrow> rgb" where
  "as_uint8 color = (case color of (r, g, b) \<Rightarrow> (r mod 256, g mod 256, b mod 256))"

text \<open>A working buffer whose cells all lie in \<open>[0, 255]\<close>.\<close>

definition in_range :: "rat ndarray \<Rightarrow> bool" where
  "in_range a = (\<forall>i. 0 \<le> cell a i \<and> cell a i \<le> 255)"

section \<open>PIL images\<close>

text \<open>
  A PIL image is an object: \<open>thumbnail\<close> and \<open>paste\<close> change it in place, and two
  names can refer to the same image. Images therefore live in a heap, a list of images;
  a reference is an index into it, and a new image is appended. \<open>None\<close> is Python's
  \<open>None\<close>.

  An image has a mode, a size \<open>(width, height)\<close> and its stored bytes: \<open>raw\<close>
  gives the byte of band \<open>c\<close> of the pixel at \<open>(x, y)\<close>, as \<open>tobytes\<close> and
  \<open>np.array\<close> see it. The number of bands follows from the mode. Modes whose bands
  are wider than 8 bits have one band, and only that count matters below.

  PIL is not part of the repository. What \<open>copy\<close>, \<open>new\<close> and \<open>paste\<close> do is
  written out; the resampling of \<open>thumbnail\<close> and the source image as \<open>paste\<close>
  reads it in the mode of the destination when the modes differ are parameters.
\<close>

record image =
  mode :: string
  size_wh :: "nat \<times> nat"
  raw :: "int \<times> int \<times> nat \<Rightarrow> uint8"

definition bands_of :: "string \<Rightarrow> nat" where
  "bands_of m =
     (if m \<in> set [''RGB'', ''YCbCr'', ''LAB'', ''HSV''] then 3
      else if m \<in> set [''RGBA'', ''RGBX'', ''RGBa'', ''CMYK''] then 4
      else if m \<in> set [''LA'', ''PA'', ''La''] then 2
      else 1)"

type_synonym heap = "image list"

record PIL =
  thumbnail_of :: "image \<Rightarrow> nat \<times> nat \<Rightarrow> image"
  convert_to :: "image \<Rightarrow> string \<Rightarrow> image"

definition Image_copy :: "heap \<Rightarrow> nat \<Rightarrow> heap \<times> nat" where
  "Image_copy h r = (h @ [h ! r], length h)"

definition Image_thumbnail :: "PIL \<Rightarrow> heap \<Rightarrow> nat \<Rightarrow> nat \<times> nat \<Rightarrow> heap" where
  "Image_thumbnail pil h r sz = h[r := thumbnail_of pil (h ! r) sz]"

definition Image_new :: "heap \<Rightarrow> string \<Rightarrow> nat \<times> nat \<Rightarrow> uint8 \<times> uint8 \<times> uint8 \<Rightarrow> heap \<times> nat" where
  "Image_new h m sz color = (case color of (r, g, b) \<Rightarrow>
     (h @ [\<lparr>mode = m, size_wh = sz, raw = (\<lambda>(x, y, c). if c < 3 then [r, g, b] ! c else 0)\<rparr>],
      length h))"

text \<open>
  \<open>dst.paste(src, (x, y))\<close>: the pixels of \<open>src\<close>, converted to the mode of
  \<open>dst\<close> if the modes differ, replace those of \<open>dst\<close> in the box at \<open>(x, y)\<close>.
\<close>

definition paste_pixels :: "image \<Rightarrow> image \<Rightarrow> int \<times> int \<Rightarrow> image" where
  "paste_pixels dst src pos = (case pos of (x, y) \<Rightarrow>
     dst\<lparr>raw := (\<lambda>(i, j, c).
        if x \<le> i \<and> i < x + int (fst (size_wh src)) \<and> y \<le> j \<and> j < y + int (snd (size_wh src))
        then raw src (i - x, j - y, c) else raw dst (i, j, c))\<rparr>)"

definition Image_paste :: "PIL \<Rightarrow> heap \<Rightarrow> nat \<Rightarrow> nat \<Rightarrow> int \<times> int \<Rightarrow> heap" where
  "Image_paste pil h dst src pos =
     (let im = (if mode (h ! src) = mode (h ! dst) then h ! src
                else convert_to pil (h ! src) (mode (h ! dst)))
      in h[dst := paste_pixels (h ! dst) im pos])"

text \<open>The first three bands of the pixel of an image at \<open>(x, y)\<close>, as integers.\<close>

definition image_pixel :: "image \<Rightarrow> int \<Rightarrow> int \<Rightarrow> rgb" where
  "image_pixel im x y = (uint (raw im (x, y, 0)), uint (raw im (x, y, 1)), uint (raw im (x, y, 2)))"

section \<open>image\_utils.py: ImageProcessor\<close>

definition MINECRAFT_MAP_SIZE :: "nat \<times> nat" where
  "MINECRAFT_MAP_SIZE = (128, 128)"

text \<open>\<open>resize_for_minecraft\<close>; on \<open>None\<close>, \<open>image.copy()\<close> raises \<open>AttributeError\<close>.\<close>

definition resize_for_minecraft ::
  "PIL \<Rightarrow> heap \<Rightarrow> nat option \<Rightarrow> (nat \<times> nat) option \<Rightarrow> error + (heap \<times> nat)" where
  "resize_for_minecraft pil h img map_size_arg =
     (case img of
        None \<Rightarrow> Inl AttributeError
      | Some r \<Rightarrow>
         (let map_size = (case map_size_arg of None \<Rightarrow> MINECRAFT_MAP_SIZE | Some s \<Rightarrow> s);
              (h1, image_copy) = Image_copy h r;
              h2 = Image_thumbnail pil h1 image_copy map_size;
              (h3, final_image) = Image_new h2 ''RGB'' map_size (0, 0, 0);
              x = (int (fst map_size) - int (fst (size_wh (h3 ! image_copy)))) div 2;
              y = (int (snd map_size) - int (snd (size_wh (h3 ! image_copy)))) div 2;
              h4 = Image_paste pil h3 final_image image_copy (x, y)
          in Inr (h4, final_image)))"

text \<open>
  The image \<open>resize_for_minecraft\<close> returns, as a function of the image it is given:
  the thumbnail pasted at the centre of a black RGB canvas.
\<close>

definition resized_image :: "PIL \<Rightarrow> image \<Rightarrow> nat \<times> nat \<Rightarrow> image" where
  "resized_image pil im map_size =
     (let t = thumbnail_of pil im map_size;
          x = (int (fst map_size) - int (fst (size_wh t))) div 2;
          y = (int (snd map_size) - int (snd (size_wh t))) div 2
      in paste_pixels
           \<lparr>mode = ''RGB'', size_wh = map_size,
            raw = (\<lambda>(x, y, c). if c < 3 then [0, 0, 0] ! c else 0)\<rparr>
           (if mode t = ''RGB'' then t else convert_to pil t ''RGB'') (x, y))"

text \<open>
  \<open>image_to_array\<close>, that is \<open>np.array(image)\<close>: a new array holding a copy of the
  stored bytes, of shape \<open>(height, width)\<close> for an image of one band and
  \<open>(height, width, bands)\<close> otherwise.
\<close>

definition image_to_array :: "image \<Rightarrow> uint8 ndarray" where
  "image_to_array im =
     \<lparr>height = snd (size_wh im), width = fst (size_wh im),
      depth = (if bands_of (mode im) = 1 then None else Some (bands_of (mode im))),
      cell = (\<lambda>(y, x, c).
         if 0 \<le> y \<and> y < int (snd (size_wh im)) \<and> 0 \<le> x \<and> x < int (fst (size_wh im))
            \<and> c < bands_of (mode im)
         then raw im (x, y, c) else 0)\<rparr>"

text \<open>
  \<open>array_to_image\<close>: clipping a \<open>uint8\<close> array to \<open>[0, 255]\<close> changes nothing;
  \<open>Image.fromarray(array, 'RGB')\<close> is a new image. It is reached with an array of
  three channels or with an array that has no pixel.
\<close>

definition fromarray :: "uint8 ndarray \<Rightarrow> image" where
  "fromarray a =
     \<lparr>mode = ''RGB'', size_wh = (width a, height a),
      raw = (\<lambda>(x, y, c). if c < 3 then cell a (y, x, c) else 0)\<rparr>"

definition array_to_image :: "heap \<Rightarrow> uint8 ndarray \<Rightarrow> heap \<times> nat" where
  "array_to_image h a = (h @ [fromarray a], length h)"

definition validate_image_for_processing :: "image option \<Rightarrow> bool \<times> string" where
  "validate_image_for_processing img =
     (case img of
        None \<Rightarrow> (False, ''Image is None'')
      | Some im \<Rightarrow>
         if fst (size_wh im) = 0 \<or> snd (size_wh im) = 0 then (False, ''Image has zero dimensions'')
         else if mode im \<notin> set [''RGB'', ''RGBA'', ''L'', ''P'']
              then (False, ''Unsupported image mode: '' @ mode im)
         else if fst (size_wh im) * snd (size_wh im) > 4194304
              then (False, ''Image is too large (max 2048x2048)'')
         else (True, ''Image is valid for processing''))"

section \<open>dithering.py: MinecraftDitherer\<close>

text \<open>
  The ditherer object. \<open>progress_callback\<close> says whether an observer is registered;
  \<open>observed\<close> lists the calls it has received, oldest first.
\<close>

record MinecraftDitherer =
  palette :: MinecraftPalette
  processed_pixels :: nat
  total_pixels :: nat
  progress_callback :: bool
  observed :: "(nat \<times> nat) list"

text \<open>
  \<open>__init__\<close>: the default palette is built first; a custom list replaces it only if
  it is truthy, that is, neither \<open>None\<close> nor empty.
\<close>

definition MinecraftDitherer_init ::
  "(rgb \<Rightarrow> lab) \<Rightarrow> string list option \<Rightarrow> error + MinecraftDitherer" where
  "MinecraftDitherer_init rgb_to_lab custom_colors =
     (case MinecraftPalette_init rgb_to_lab default_CARPET_COLORS of
        Inl e \<Rightarrow> Inl e
      | Inr p0 \<Rightarrow>
         (case (case custom_colors of
                  None \<Rightarrow> Inr p0
                | Some cs \<Rightarrow> if cs = [] then Inr p0 else MinecraftPalette_init rgb_to_lab cs) of
            Inl e \<Rightarrow> Inl e
          | Inr p \<Rightarrow>
             Inr \<lparr>palette = p, processed_pixels = 0, total_pixels = 0,
                  progress_callback = False, observed = []\<rparr>))"

definition error_matrix :: "rat list list" where
  "error_matrix = [ [0, 0, 7 / 16], [3 / 16, 5 / 16, 1 / 16] ]"

definition set_progress_callback :: "MinecraftDitherer \<Rightarrow> MinecraftDitherer" where
  "set_progress_callback d = d\<lparr>progress_callback := True\<rparr>"

definition update_progress :: "MinecraftDitherer \<Rightarrow> MinecraftDitherer" where
  "update_progress d =
     (if progress_callback d
      then d\<lparr>observed := observed d @ [(processed_pixels d, total_pixels d)]\<rparr>
      else d)"

text \<open>
  \<open>_find_closest_color\<close>: the Lab lookup, and the error
  \<open>np.array(rgb) - np.array(closest_rgb)\<close> as a vector of three floats.
\<close>

fun quantization_error :: "rgb \<Rightarrow> rgb \<Rightarrow> rat list" where
  "quantization_error (r, g, b) (cr, cg, cb) = [of_int r - of_int cr, of_int g - of_int cg, of_int b - of_int cb]"

definition ditherer_find_closest_color ::
  "(rgb \<Rightarrow> lab) \<Rightarrow> MinecraftDitherer \<Rightarrow> rgb \<Rightarrow> error + (nat \<times> rgb \<times> rat list)" where
  "ditherer_find_closest_color rgb_to_lab d color =
     (case find_closest_color rgb_to_lab (palette d) color ''lab'' of
        Inl e \<Rightarrow> Inl e
      | Inr (idx, closest_rgb, closest_hex) \<Rightarrow>
         Inr (idx, closest_rgb, quantization_error color closest_rgb))"

text \<open>
  \<open>_apply_error_diffusion\<close>. \<open>add_weighted_error\<close> is the body of the loop over
  the channels, \<open>diffuse_to\<close> the body of the loop over \<open>dx\<close>. As in the source,
  the entry \<open>(dy, dx)\<close> of the matrix goes to row \<open>y + dy + 1\<close> and column
  \<open>x + dx - 1\<close>: the weight 7/16 to the pixel below and to the right, the other three
  to the row after that.
\<close>

definition add_weighted_error :: "int \<Rightarrow> int \<Rightarrow> rat list \<Rightarrow> nat \<Rightarrow> rat ndarray \<Rightarrow> rat ndarray" where
  "add_weighted_error ny nx weighted_error c image_array =
     (let new_value = cell image_array (ny, nx, c) + weighted_error ! c
      in image_array\<lparr>cell := (cell image_array)((ny, nx, c) := np_clip new_value 0 255)\<rparr>)"

definition diffuse_to :: "int \<Rightarrow> int \<Rightarrow> rat list \<Rightarrow> nat \<Rightarrow> nat \<Rightarrow> rat ndarray \<Rightarrow> rat ndarray" where
  "diffuse_to x y err dy dx image_array =
     (let nx = x + int dx - 1; ny = y + int dy + 1
      in if 0 \<le> nx \<and> nx < int (width image_array) \<and> 0 \<le> ny \<and> ny < int (height image_array)
         then (let weight = error_matrix ! dy ! dx
               in if weight > 0
                  then (let weighted_error = map (\<lambda>e. e * weight) err
                        in fold (add_weighted_error ny nx weighted_error) [0, 1, 2] image_array)
                  else image_array)
         else image_array)"

definition apply_error_diffusion :: "rat ndarray \<Rightarrow> int \<Rightarrow> int \<Rightarrow> rat list \<Rightarrow> rat ndarray" where
  "apply_error_diffusion image_array x y err =
     fold (\<lambda>dy a. fold (diffuse_to x y err dy) [0, 1, 2] a) [0, 1] image_array"

text \<open>
  The stencil positions that pass the bounds check of \<open>_apply_error_diffusion\<close> at
  pixel \<open>(x, y)\<close> with a positive weight, as \<open>(ny, nx, weight)\<close>, in loop order.
\<close>

definition stencil_positions :: "(nat \<times> nat) list" where
  "stencil_positions = [(0, 0), (0, 1), (0, 2), (1, 0), (1, 1), (1, 2)]"

definition in_bounds_neighbors :: "'a ndarray \<Rightarrow> int \<Rightarrow> int \<Rightarrow> (int \<times> int \<times> rat) list" where
  "in_bounds_neighbors image_array x y =
     map (\<lambda>(dy, dx). (y + int dy + 1, x + int dx - 1, error_matrix ! dy ! dx))
       (filter (\<lambda>(dy, dx).
           0 \<le> x + int dx - 1 \<and> x + int dx - 1 < int (width image_array) \<and>
           0 \<le> y + int dy + 1 \<and> y + int dy + 1 < int (height image_array) \<and>
           error_matrix ! dy ! dx > 0) stencil_positions)"

text \<open>
  The guarded body of \<open>diffuse_to\<close>: the weighted error added to the three
  channels of one neighbour.
\<close>

definition write_neighbor :: "rat list \<Rightarrow> int \<times> int \<times> rat \<Rightarrow> rat ndarray \<Rightarrow> rat ndarray" where
  "write_neighbor err t a = (case t of (ny, nx, weight) \<Rightarrow>
      fold (add_weighted_error ny nx (map (\<lambda>e. e * weight) err)) [0, 1, 2] a)"

text \<open>
  The pixel loop of \<open>dither_image\<close>. Its state is the working buffer, the output
  buffer and the ditherer object (for the progress counters).
\<close>

record sweep_state =
  image_array :: "rat ndarray"
  output_array :: "uint8 ndarray"
  ditherer :: MinecraftDitherer

text \<open>\<open>tuple(image_array[y, x].astype(int))\<close>\<close>

definition current_rgb :: "rat ndarray \<Rightarrow> int \<Rightarrow> int \<Rightarrow> rgb" where
  "current_rgb a y x =
     (astype_int (cell a (y, x, 0)), astype_int (cell a (y, x, 1)), astype_int (cell a (y, x, 2)))"

text \<open>
  The body of the loop, for the pixel in row \<open>y\<close> and column \<open>x\<close>. On a
  two-dimensional array \<open>image_array[y, x]\<close> is a scalar and \<open>tuple\<close> raises
  \<open>TypeError\<close>. On an array with a number of channels other than three the tuple
  has that many components and the conversion to Lab inside the lookup
  (\<open>cspace_convert\<close>, on a vector that is not of length three) raises
  \<open>ValueError\<close>. Both happen before anything is written.
\<close>

definition dither_pixel :: "(rgb \<Rightarrow> lab) \<Rightarrow> sweep_state \<Rightarrow> int \<times> int \<Rightarrow> error + sweep_state" where
  "dither_pixel rgb_to_lab st p = (case p of (y, x) \<Rightarrow>
     (case depth (image_array st) of
        None \<Rightarrow> Inl TypeError
      | Some k \<Rightarrow>
         if k \<noteq> 3 then Inl ValueError
         else
          (case ditherer_find_closest_color rgb_to_lab (ditherer st) (current_rgb (image_array st) y x) of
             Inl e \<Rightarrow> Inl e
           | Inr (idx, closest_rgb, err) \<Rightarrow>
              (let out = set_pixel (output_array st) y x closest_rgb;
                   img = apply_error_diffusion (image_array st) x y err;
                   d = (ditherer st)\<lparr>processed_pixels := processed_pixels (ditherer st) + 1\<rparr>;
                   d' = (if processed_pixels d mod 1000 = 0 then update_progress d else d)
               in Inr \<lparr>image_array = img, output_array = out, ditherer = d'\<rparr>))))"

text \<open>
  \<open>for y in range(height): for x in range(width)\<close>: the pixels as \<open>(y, x)\<close>, row by
  row.
\<close>

definition pixel_order :: "nat \<Rightarrow> nat \<Rightarrow> (int \<times> int) list" where
  "pixel_order h w = concat (map (\<lambda>y. map (\<lambda>x. (int y, int x)) [0..<w]) [0..<h])"

fun sweep :: "(rgb \<Rightarrow> lab) \<Rightarrow> sweep_state \<Rightarrow> (int \<times> int) list \<Rightarrow> error + sweep_state" where
  "sweep rgb_to_lab st [] = Inr st"
| "sweep rgb_to_lab st (p # ps) =
     (case dither_pixel rgb_to_lab st p of
        Inl e \<Rightarrow> Inl e
      | Inr st' \<Rightarrow> sweep rgb_to_lab st' ps)"

text \<open>
  Lines 129 to 162 of \<open>dither_image\<close>, from the \<open>uint8\<close> array of the prepared image
  to the output array: \<open>sweep_start\<close> is the state before the loop (the working buffer
  as floats, the zeroed output, the counters reset), \<open>dither_array\<close> runs the loop and
  the final progress update.
\<close>

definition sweep_start :: "MinecraftDitherer \<Rightarrow> uint8 ndarray \<Rightarrow> sweep_state" where
  "sweep_start d source =
     (let working = astype_float64 source
      in \<lparr>image_array = working, output_array = zeros_like working,
          ditherer = d\<lparr>total_pixels := height working * width working, processed_pixels := 0\<rparr>\<rparr>)"

definition dither_array ::
  "(rgb \<Rightarrow> lab) \<Rightarrow> MinecraftDitherer \<Rightarrow> uint8 ndarray \<Rightarrow> error + (uint8 ndarray \<times> MinecraftDitherer)" where
  "dither_array rgb_to_lab d source =
     (case sweep rgb_to_lab (sweep_start d source) (pixel_order (height source) (width source)) of
        Inl e \<Rightarrow> Inl e
      | Inr st \<Rightarrow> Inr (output_array st, update_progress (ditherer st)))"

text \<open>
  The loop of \<open>_create_quantized_image\<close>: the lookup on the untouched \<open>uint8\<close>
  pixel, no diffusion. Arrays that are two-dimensional or have a number of channels other
  than three raise as in the loop of \<open>dither_image\<close>.
\<close>

definition quantize_pixel ::
  "(rgb \<Rightarrow> lab) \<Rightarrow> MinecraftPalette \<Rightarrow> uint8 ndarray \<Rightarrow> uint8 ndarray \<Rightarrow> int \<times> int \<Rightarrow> error + uint8 ndarray" where
  "quantize_pixel rgb_to_lab p source out q = (case q of (y, x) \<Rightarrow>
     (case depth source of
        None \<Rightarrow> Inl TypeError
      | Some k \<Rightarrow>
         if k \<noteq> 3 then Inl ValueError
         else
          (case find_closest_color rgb_to_lab p (pixel_at source y x) ''lab'' of
             Inl e \<Rightarrow> Inl e
           | Inr (idx, closest_rgb, closest_hex) \<Rightarrow> Inr (set_pixel out y x closest_rgb))))"

fun quantize_sweep ::
  "(rgb \<Rightarrow> lab) \<Rightarrow> MinecraftPalette \<Rightarrow> uint8 ndarray \<Rightarrow> uint8 ndarray \<Rightarrow> (int \<times> int) list \<Rightarrow> error + uint8 ndarray" where
  "quantize_sweep rgb_to_lab p source out [] = Inr out"
| "quantize_sweep rgb_to_lab p source out (q # qs) =
     (case quantize_pixel rgb_to_lab p source out q of
        Inl e \<Rightarrow> Inl e
      | Inr out' \<Rightarrow> quantize_sweep rgb_to_lab p source out' qs)"

definition quantize_array ::
  "(rgb \<Rightarrow> lab) \<Rightarrow> MinecraftDitherer \<Rightarrow> uint8 ndarray \<Rightarrow> error + uint8 ndarray" where
  "quantize_array rgb_to_lab d source =
     quantize_sweep rgb_to_lab (palette d) source (zeros_like source)
       (pixel_order (height source) (width source))"

text \<open>
  \<open>dither_image\<close>. Without the resize, \<open>np.array(None).astype(np.float64)\<close> is an
  array without dimensions, and unpacking its \<open>shape[:2]\<close> into \<open>height, width\<close>
  raises \<open>ValueError\<close>. The result is the heap, the reference of the new image and the
  ditherer.
\<close>

definition dither_image ::
  "(rgb \<Rightarrow> lab) \<Rightarrow> PIL \<Rightarrow> heap \<Rightarrow> MinecraftDitherer \<Rightarrow> nat option \<Rightarrow> bool
     \<Rightarrow> error + (heap \<times> nat \<times> MinecraftDitherer)" where
  "dither_image rgb_to_lab pil h d img resize =
     (case (if resize
            then (case resize_for_minecraft pil h img None of
                    Inl e \<Rightarrow> Inl e
                  | Inr (h1, r) \<Rightarrow> Inr (h1, Some r))
            else Inr (h, img)) of
        Inl e \<Rightarrow> Inl e
      | Inr (h1, img1) \<Rightarrow>
         (case img1 of
            None \<Rightarrow> Inl ValueError
          | Some r \<Rightarrow>
             (case dither_array rgb_to_lab d (image_to_array (h1 ! r)) of
                Inl e \<Rightarrow> Inl e
              | Inr (out, d') \<Rightarrow>
                 (case array_to_image h1 out of (h2, result_image) \<Rightarrow> Inr (h2, result_image, d')))))"

text \<open>\<open>_create_quantized_image\<close>, on an image of the heap.\<close>

definition create_quantized_image ::
  "(rgb \<Rightarrow> lab) \<Rightarrow> heap \<Rightarrow> MinecraftDitherer \<Rightarrow> nat \<Rightarrow> error + (heap \<times> nat)" where
  "create_quantized_image rgb_to_lab h d r =
     (case quantize_array rgb_to_lab d (image_to_array (h ! r)) of
        Inl e \<Rightarrow> Inl e
      | Inr out \<Rightarrow> Inr (array_to_image h out))"

text \<open>
  \<open>dither_with_comparison\<close>: the references of the original, the quantized and the
  dithered image.
\<close>

definition dither_with_comparison ::
  "(rgb \<Rightarrow> lab) \<Rightarrow> PIL \<Rightarrow> heap \<Rightarrow> MinecraftDitherer \<Rightarrow> nat option \<Rightarrow> bool
     \<Rightarrow> error + (heap \<times> (nat \<times> nat \<times> nat) \<times> MinecraftDitherer)" where
  "dither_with_comparison rgb_to_lab pil h d img resize =
     (case (if resize then resize_for_minecraft pil h img None
            else (case img of None \<Rightarrow> Inl AttributeError | Some r \<Rightarrow> Inr (Image_copy h r))) of
        Inl e \<Rightarrow> Inl e
      | Inr (h1, original) \<Rightarrow>
         (case create_quantized_image rgb_to_lab h1 d original of
            Inl e \<Rightarrow> Inl e
          | Inr (h2, quantized) \<Rightarrow>
             (case dither_image rgb_to_lab pil h2 d (Some original) False of
                Inl e \<Rightarrow> Inl e
              | Inr (h3, dithered, d') \<Rightarrow> Inr (h3, (original, quantized, dithered), d'))))"

section \<open>Multi-tile sizing\<close>

text \<open>
  Modelled from the spec: the size of a tile and the inclusive range of the tile counts
  (section 4.2, ``fixed-size (e.g. 128 by 128) square tiles'', ``a configured inclusive
  range (e.g. 1..8)''). The multi-map variants of \<open>resize_for_minecraft\<close> and
  \<open>dither_image\<close> that \<open>test_multimap.py\<close> calls with \<open>map_width\<close> and
  \<open>map_height\<close> are not among the sources, which hold the single-map versions only.
\<close>

definition TILE_SIZE :: nat where
  "TILE_SIZE = 128"

definition MIN_TILES :: int where
  "MIN_TILES = 1"

definition MAX_TILES :: int where
  "MAX_TILES = 8"

text \<open>
  Modelled from the spec: the canvas of an N by M tile grid (the missing bound check and
  size computation of the multi-map resize). ``The effective canvas is
  \<open>(N \<sqdot> tileSize, M \<sqdot> tileSize)\<close>; both N and M are bounded to a configured inclusive
  range; values outside the range fail with \<open>InvalidDimensionsError\<close> naming the
  offending bound.''
\<close>

definition tile_canvas :: "int \<Rightarrow> int \<Rightarrow> error + (nat \<times> nat)" where
  "tile_canvas n m =
     (if n < MIN_TILES \<or> MAX_TILES < n then Inl (InvalidDimensionsError ''tileGridWidth'')
      else if m < MIN_TILES \<or> MAX_TILES < m then Inl (InvalidDimensionsError ''tileGridHeight'')
      else Inr (nat n * TILE_SIZE, nat m * TILE_SIZE))"

text \<open>
  Modelled from the spec: dithering onto a tile grid (the missing \<open>dither_image\<close> with
  \<open>map_width\<close> and \<open>map_height\<close>). The bounds are checked first; the resize and
  the sweep are those of the sources, with the canvas as map size.
\<close>

definition dither_image_tiles ::
  "(rgb \<Rightarrow> lab) \<Rightarrow> PIL \<Rightarrow> heap \<Rightarrow> MinecraftDitherer \<Rightarrow> nat option \<Rightarrow> int \<Rightarrow> int
     \<Rightarrow> error + (heap \<times> nat \<times> MinecraftDitherer)" where
  "dither_image_tiles rgb_to_lab pil h d img n m =
     (case tile_canvas n m of
        Inl e \<Rightarrow> Inl e
      | Inr canvas \<Rightarrow>
         (case resize_for_minecraft pil h img (Some canvas) of
            Inl e \<Rightarrow> Inl e
          | Inr (h1, r) \<Rightarrow> dither_image rgb_to_lab pil h1 d (Some r) False))"

text \<open>Small working buffers on which the theorems below are evaluated.\<close>

definition white_2x2 :: "rat ndarray" where
  "white_2x2 = \<lparr>height = 2, width = 2, depth = Some 3, cell = (\<lambda>i. 255)\<rparr>"

definition gray_3x3 :: "rat ndarray" where
  "gray_3x3 = \<lparr>height = 3, width = 3, depth = Some 3, cell = (\<lambda>i. 100)\<rparr>"

definition black_1x1 :: "rat ndarray" where
  "black_1x1 = \<lparr>height = 1, width = 1, depth = Some 3, cell = (\<lambda>i. 0)\<rparr>"

text \<open>
  A stand-in for the colour conversion and a two-colour palette with its ditherer, for
  the same purpose.
\<close>

definition channels_as_lab :: "rgb \<Rightarrow> lab" where
  "channels_as_lab c = (case c of (r, g, b) \<Rightarrow> (of_int r, of_int g, of_int b))"

definition bw_palette :: MinecraftPalette where
  "bw_palette = \<lparr>CARPET_COLORS = [''#000000'', ''#FFFFFF''],
                  colors_rgb = [(0, 0, 0), (255, 255, 255)],
                  colors_lab = [(0, 0, 0), (255, 255, 255)]\<rparr>"

definition bw_ditherer :: MinecraftDitherer where
  "bw_ditherer = \<lparr>palette = bw_palette, processed_pixels = 0, total_pixels = 0,
                   progress_callback = False, observed = []\<rparr>"

text \<open>
  A source of two rows and two columns: 2 in every channel at the top left, 127 at the
  bottom right, 0 elsewhere.
\<close>

definition corner_2x2 :: "uint8 ndarray" where
  "corner_2x2 =
     \<lparr>height = 2, width = 2, depth = Some 3,
      cell = (\<lambda>(y, x, c). if y = 0 \<and> x = 0 then 2 else if y = 1 \<and> x = 1 then 127 else 0)\<rparr>"

text \<open>A ditherer whose one colour, written \<open>#-1-1-1\<close>, has the channels -1.\<close>

definition minus_ditherer :: MinecraftDitherer where
  "minus_ditherer =
     \<lparr>palette = \<lparr>CARPET_COLORS = [''#-1-1-1''], colors_rgb = [(- 1, - 1, - 1)],
                   colors_lab = [(- 1, - 1, - 1)]\<rparr>,
      processed_pixels = 0, total_pixels = 0, progress_callback = False, observed = []\<rparr>"

text \<open>
  One-pixel images in the modes RGB and HSV, an RGB image without pixels, and stand-ins
  for the two PIL operations that are parameters: a thumbnail that leaves the image as
  it is (what PIL does when the image already fits) and a conversion that only relabels
  the mode.
\<close>

definition gray_image :: image where
  "gray_image = \<lparr>mode = ''RGB'', size_wh = (1, 1), raw = (\<lambda>q. 100)\<rparr>"

definition hsv_image :: image where
  "hsv_image = \<lparr>mode = ''HSV'', size_wh = (1, 1), raw = (\<lambda>q. 100)\<rparr>"

definition empty_image :: image where
  "empty_image = \<lparr>mode = ''RGB'', size_wh = (0, 0), raw = (\<lambda>q. 0)\<rparr>"

definition plain_pil :: PIL where
  "plain_pil = \<lparr>thumbnail_of = (\<lambda>im sz. im), convert_to = (\<lambda>im m. im\<lparr>mode := m\<rparr>)\<rparr>"

section \<open>Verified properties\<close>

subsection \<open>Nearest-colour lookup\<close>

lemma argmin_from_spec:
  assumes "besti < length pre" "i = length pre" "best = pre ! besti"
      "\<forall>j<length pre. best \<le> pre ! j" "\<forall>j<besti. best < pre ! j"
  shows "(let k = argmin_from best besti i ds in
          k < length (pre @ ds) \<and> (\<forall>j<length (pre @ ds). (pre @ ds) ! k \<le> (pre @ ds) ! j)
          \<and> (\<forall>j<k. (pre @ ds) ! k < (pre @ ds) ! j))"
  using assms
proof (induction ds arbitrary: pre best besti i)
  case Nil
  then show ?case by simp
next
  case (Cons d ds)
  show ?case
  proof (cases "d < best")
    case True
    have "let k = argmin_from d i (Suc i) ds in
          k < length ((pre @ [d]) @ ds) \<and> (\<forall>j<length ((pre @ [d]) @ ds). ((pre @ [d]) @ ds) ! k \<le> ((pre @ [d]) @ ds) ! j)
          \<and> (\<forall>j<k. ((pre @ [d]) @ ds) ! k < ((pre @ [d]) @ ds) ! j)"
    proof (rule Cons.IH)
      show "i < length (pre @ [d])" using Cons.prems by simp
      show "Suc i = length (pre @ [d])" using Cons.prems by simp
      show "d = (pre @ [d]) ! i" using Cons.prems by simp
      show "\<forall>j<length (pre @ [d]). d \<le> (pre @ [d]) ! j"
      proof (intro allI impI)
        fix j assume "j < length (pre @ [d])"
        show "d \<le> (pre @ [d]) ! j"
        proof (cases "j < length pre")
          case True
          with Cons.prems have "best \<le> pre ! j" by simp
          with \<open>d < best\<close> have "d \<le> pre ! j" by linarith
          with True show ?thesis by (simp add: nth_append)
        next
          case False
          with \<open>j < length (pre @ [d])\<close> show ?thesis by (simp add: nth_append)
        qed
      qed
      show "\<forall>j<i. d < (pre @ [d]) ! j"
      proof (intro allI impI)
        fix j assume "j < i"
        with Cons.prems have j: "j < length pre" and "best \<le> pre ! j" by simp_all
        with \<open>d < best\<close> have "d < pre ! j" by linarith
        with j show "d < (pre @ [d]) ! j"
          by (simp add: nth_append)
      qed
    qed
    with True show ?thesis by simp
  next
    case False
    have "let k = argmin_from best besti (Suc i) ds in
          k < length ((pre @ [d]) @ ds) \<and> (\<forall>j<length ((pre @ [d]) @ ds). ((pre @ [d]) @ ds) ! k \<le> ((pre @ [d]) @ ds) ! j)
          \<and> (\<forall>j<k. ((pre @ [d]) @ ds) ! k < ((pre @ [d]) @ ds) ! j)"
    proof (rule Cons.IH)
      show "besti < length (pre @ [d])" using Cons.prems by simp
      show "Suc i = length (pre @ [d])" using Cons.prems by simp
      show "best = (pre @ [d]) ! besti" using Cons.prems by (simp add: nth_append)
      show "\<forall>j<length (pre @ [d]). best \<le> (pre @ [d]) ! j"
        using Cons.prems False by (auto simp: nth_append less_Suc_eq)
      show "\<forall>j<besti. best < (pre @ [d]) ! j"
        using Cons.prems by (auto simp: nth_append)
    qed
    with False show ?thesis by simp
  qed
qed

lemma argmin_first_min:
  assumes "ds \<noteq> []"
  shows "\<exists>k. argmin ds = Inr k \<and> k < length ds \<and> (\<forall>j<length ds. ds ! k \<le> ds ! j) \<and> (\<forall>j<k. ds ! k < ds ! j)"
proof -
  from assms obtain d rest where ds: "ds = d # rest" by (cases ds) auto
  have "let k = argmin_from d 0 1 rest in
          k < length ([d] @ rest) \<and> (\<forall>j<length ([d] @ rest). ([d] @ rest) ! k \<le> ([d] @ rest) ! j)
          \<and> (\<forall>j<k. ([d] @ rest) ! k < ([d] @ rest) ! j)"
    by (rule argmin_from_spec) simp_all
  then show ?thesis by (simp add: ds argmin_def Let_def)
qed

lemma convert_colors_shape:
  "convert_colors f colors = Inr (cs, ls) \<Longrightarrow>
     length cs = length colors \<and> ls = map f cs"
  by (induction colors arbitrary: cs ls) (auto split: sum.splits)

lemma MinecraftPalette_init_shape:
  assumes "MinecraftPalette_init f colors = Inr p"
  shows "colors \<noteq> [] \<and> CARPET_COLORS p = colors \<and> length (colors_rgb p) = length colors
         \<and> colors_lab p = map f (colors_rgb p)"
  using assms convert_colors_shape [of f colors]
  by (auto simp: MinecraftPalette_init_def split: if_splits sum.splits)

lemma closest_at_ok:
  assumes "k < length (colors_rgb p)" "length (CARPET_COLORS p) = length (colors_rgb p)"
  shows "closest_at p k = Inr (k, colors_rgb p ! k, CARPET_COLORS p ! k)"
  using assms by (simp add: closest_at_def getitem_def)

lemma find_closest_color_first_min:
  assumes "MinecraftPalette_init rgb_to_lab colors = Inr p"
  shows "let dist = (if lower method = ''lab''
                     then (\<lambda>c. lab_distance (rgb_to_lab target) (rgb_to_lab c))
                     else rgb_distance target);
             cs = colors_rgb p
         in \<exists>idx. find_closest_color rgb_to_lab p target method = Inr (idx, cs ! idx, colors ! idx)
               \<and> idx < length cs
               \<and> (\<forall>j<length cs. dist (cs ! idx) \<le> dist (cs ! j))
               \<and> (\<forall>j<idx. dist (cs ! idx) < dist (cs ! j))
               \<and> (1 < length cs \<and> cs ! 0 = cs ! 1 \<longrightarrow> idx \<noteq> 1)"
proof -
  note sh = MinecraftPalette_init_shape [OF assms]
  let ?cs = "colors_rgb p"
  have ne: "?cs \<noteq> []" using sh by auto
  have len: "length (CARPET_COLORS p) = length ?cs" using sh by simp
  show ?thesis
  proof (cases "lower method = ''lab''")
    case True
    let ?ds = "lab_distances (colors_lab p) (rgb_to_lab target)"
    have dne: "?ds \<noteq> []" using ne sh by (simp add: lab_distances_def)
    from argmin_first_min [OF dne] obtain k where k: "argmin ?ds = Inr k" "k < length ?ds"
      "\<forall>j<length ?ds. ?ds ! k \<le> ?ds ! j" "\<forall>j<k. ?ds ! k < ?ds ! j" by blast
    have lds: "length ?ds = length ?cs" using sh by (simp add: lab_distances_def)
    have nth: "\<And>j. j < length ?cs \<Longrightarrow> ?ds ! j = lab_distance (rgb_to_lab target) (rgb_to_lab (?cs ! j))"
      using sh by (simp add: lab_distances_def)
    have res: "find_closest_color rgb_to_lab p target method = Inr (k, ?cs ! k, colors ! k)"
      using True k(1) k(2) lds closest_at_ok [of k p] len sh
      by (simp add: find_closest_color_def find_closest_color_lab_def)
    have a: "\<forall>j<length ?cs. lab_distance (rgb_to_lab target) (rgb_to_lab (?cs ! k))
                 \<le> lab_distance (rgb_to_lab target) (rgb_to_lab (?cs ! j))"
      using k(2,3) lds nth by auto
    have b: "\<forall>j<k. lab_distance (rgb_to_lab target) (rgb_to_lab (?cs ! k))
                 < lab_distance (rgb_to_lab target) (rgb_to_lab (?cs ! j))"
      using k(2,4) lds nth by auto
    have c: "1 < length ?cs \<and> ?cs ! 0 = ?cs ! 1 \<longrightarrow> k \<noteq> 1"
      using b by auto
    show ?thesis unfolding Let_def using True res k(2) lds a b c by auto
  next
    case False
    let ?ds = "rgb_distances ?cs target"
    have dne: "?ds \<noteq> []" using ne by (simp add: rgb_distances_def)
    from argmin_first_min [OF dne] obtain k where k: "argmin ?ds = Inr k" "k < length ?ds"
      "\<forall>j<length ?ds. ?ds ! k \<le> ?ds ! j" "\<forall>j<k. ?ds ! k < ?ds ! j" by blast
    have lds: "length ?ds = length ?cs" by (simp add: rgb_distances_def)
    have nth: "\<And>j. j < length ?cs \<Longrightarrow> ?ds ! j = rgb_distance target (?cs ! j)"
      by (simp add: rgb_distances_def)
    have res: "find_closest_color rgb_to_lab p target method = Inr (k, ?cs ! k, colors ! k)"
      using False k(1) k(2) lds closest_at_ok [of k p] len sh
      by (simp add: find_closest_color_def find_closest_color_rgb_def)
    have a: "\<forall>j<length ?cs. rgb_distance target (?cs ! k) \<le> rgb_distance target (?cs ! j)"
      using k(2,3) lds nth by auto
    have b: "\<forall>j<k. rgb_distance target (?cs ! k) < rgb_distance target (?cs ! j)"
      using k(2,4) lds nth by auto
    have c: "1 < length ?cs \<and> ?cs ! 0 = ?cs ! 1 \<longrightarrow> k \<noteq> 1"
      using b by auto
    show ?thesis unfolding Let_def using False res k(2) lds a b c by auto
  qed
qed

text \<open>
  Claim C2. For every target colour and every palette built by the constructor (so not
  empty), \<open>find_closest_color\<close> under either metric returns the lowest index among
  the entries at minimum distance: no entry is closer than the returned one and every
  entry before it is strictly farther. In particular, when the first two entries are the
  same colour, index 1 is never returned, so a tie between them goes to index 0.
\<close>

theorem find_closest_color_lowest_index:
  assumes "MinecraftPalette_init rgb_to_lab colors = Inr p"
  shows "let dist = (if lower method = ''lab''
                     then (\<lambda>c. lab_distance (rgb_to_lab target) (rgb_to_lab c))
                     else rgb_distance target);
             cs = colors_rgb p
         in \<exists>idx. find_closest_color rgb_to_lab p target method = Inr (idx, cs ! idx, colors ! idx)
               \<and> idx < length cs
               \<and> (\<forall>j<length cs. dist (cs ! idx) \<le> dist (cs ! j))
               \<and> (\<forall>j<idx. dist (cs ! idx) < dist (cs ! j))
               \<and> (1 < length cs \<and> cs ! 0 = cs ! 1 \<longrightarrow> idx \<noteq> 1)"
  using assms by (rule find_closest_color_first_min)

text \<open>
  The theorem at a palette whose first two entries are the same grey, with the channel
  values themselves as Lab coordinates: the lookup returns index 0.
\<close>

theorem find_closest_color_lowest_index_witness:
  "MinecraftPalette_init (\<lambda>(r, g, b). (of_int r, of_int g, of_int b)) [''#808080'', ''#808080'', ''#FFFFFF'']
     = Inr \<lparr>CARPET_COLORS = [''#808080'', ''#808080'', ''#FFFFFF''],
            colors_rgb = [(128, 128, 128), (128, 128, 128), (255, 255, 255)],
            colors_lab = [(128, 128, 128), (128, 128, 128), (255, 255, 255)]\<rparr>
   \<and> find_closest_color (\<lambda>(r, g, b). (of_int r, of_int g, of_int b))
        \<lparr>CARPET_COLORS = [''#808080'', ''#808080'', ''#FFFFFF''],
            colors_rgb = [(128, 128, 128), (128, 128, 128), (255, 255, 255)],
            colors_lab = [(128, 128, 128), (128, 128, 128), (255, 255, 255)]\<rparr>
        (100, 100, 100) ''LAB'' = Inr (0, (128, 128, 128), ''#808080'')"
proof -
  have init: "MinecraftPalette_init (\<lambda>(r, g, b). (of_int r, of_int g, of_int b)) [''#808080'', ''#808080'', ''#FFFFFF'']
     = Inr \<lparr>CARPET_COLORS = [''#808080'', ''#808080'', ''#FFFFFF''],
            colors_rgb = [(128, 128, 128), (128, 128, 128), (255, 255, 255)],
            colors_lab = [(128, 128, 128), (128, 128, 128), (255, 255, 255)]\<rparr>"
    by (simp add: MinecraftPalette_init_def hex_to_rgb_def lstrip_hash_def hex_digit_def)
  show ?thesis
    using init find_closest_color_lowest_index [OF init, of "''LAB''" "(100, 100, 100)"]
    by (simp add: find_closest_color_def find_closest_color_lab_def lab_distances_def argmin_def
          closest_at_def getitem_def lower_def lower_char_def)
qed



subsection \<open>Error diffusion\<close>

lemma write_neighbor_shape [simp]:
  "height (write_neighbor err t a) = height a" "width (write_neighbor err t a) = width a"
  by (auto simp: write_neighbor_def add_weighted_error_def Let_def split: prod.splits)

lemma write_neighbor_cell:
  "length err = 3 \<Longrightarrow> cell (write_neighbor err (ny, nx, wt) a) (y', x', c) =
     (if y' = ny \<and> x' = nx \<and> c < 3 then np_clip (cell a (ny, nx, c) + err ! c * wt) 0 255
      else cell a (y', x', c))"
  by (auto simp: write_neighbor_def add_weighted_error_def Let_def less_Suc_eq numeral_3_eq_3)

lemma diffuse_to_write:
  "diffuse_to x y err dy dx a =
     (if 0 \<le> x + int dx - 1 \<and> x + int dx - 1 < int (width a) \<and>
         0 \<le> y + int dy + 1 \<and> y + int dy + 1 < int (height a) \<and> error_matrix ! dy ! dx > 0
      then write_neighbor err (y + int dy + 1, x + int dx - 1, error_matrix ! dy ! dx) a else a)"
  by (simp add: diffuse_to_def write_neighbor_def Let_def)

lemma diffuse_to_shape [simp]:
  "height (diffuse_to x y err dy dx a) = height a" "width (diffuse_to x y err dy dx a) = width a"
  by (simp_all add: diffuse_to_write)

lemma fold_diffuse_filter:
  "fold (\<lambda>(dy, dx). diffuse_to x y err dy dx) ps a =
   fold (write_neighbor err)
     (map (\<lambda>(dy, dx). (y + int dy + 1, x + int dx - 1, error_matrix ! dy ! dx))
       (filter (\<lambda>(dy, dx).
           0 \<le> x + int dx - 1 \<and> x + int dx - 1 < int (width a) \<and>
           0 \<le> y + int dy + 1 \<and> y + int dy + 1 < int (height a) \<and>
           error_matrix ! dy ! dx > 0) ps)) a"
proof (induction ps arbitrary: a)
  case Nil
  then show ?case by simp
next
  case (Cons p ps)
  obtain dy dx where p: "p = (dy, dx)" by (cases p)
  show ?case
    by (simp add: p Cons.IH) (simp add: diffuse_to_write)
qed

lemma apply_error_diffusion_fold:
  "apply_error_diffusion a x y err = fold (write_neighbor err) (in_bounds_neighbors a x y) a"
proof -
  have "apply_error_diffusion a x y err = fold (\<lambda>(dy, dx). diffuse_to x y err dy dx) stencil_positions a"
    by (simp add: apply_error_diffusion_def stencil_positions_def)
  then show ?thesis by (simp add: fold_diffuse_filter in_bounds_neighbors_def)
qed

lemma fold_write_shape [simp]:
  "height (fold (write_neighbor err) ts a) = height a"
  "width (fold (write_neighbor err) ts a) = width a"
  by (induction ts arbitrary: a) auto

lemma write_neighbor_frame:
  "(y', x') \<noteq> (ny, nx) \<or> \<not> c < 3 \<Longrightarrow>
     cell (write_neighbor err (ny, nx, wt) a) (y', x', c) = cell a (y', x', c)"
  by (auto simp: write_neighbor_def add_weighted_error_def Let_def)

lemma fold_write_other:
  assumes "(y', x') \<notin> (\<lambda>(ny, nx, wt). (ny, nx)) ` set ts"
  shows "cell (fold (write_neighbor err) ts a) (y', x', c) = cell a (y', x', c)"
  using assms
proof (induction ts arbitrary: a)
  case Nil
  then show ?case by simp
next
  case (Cons t ts)
  obtain ny nx wt where t: "t = (ny, nx, wt)" by (cases t)
  from Cons.prems have ne: "(y', x') \<noteq> (ny, nx)" and rest: "(y', x') \<notin> (\<lambda>(ny, nx, wt). (ny, nx)) ` set ts"
    by (auto simp: t)
  have "cell (fold (write_neighbor err) (t # ts) a) (y', x', c) = cell (write_neighbor err t a) (y', x', c)"
    using Cons.IH [OF rest] by simp
  also have "\<dots> = cell a (y', x', c)"
    using ne by (simp add: t write_neighbor_frame)
  finally show ?case .
qed

lemma fold_write_off_channel:
  assumes "\<not> c < 3"
  shows "cell (fold (write_neighbor err) ts a) (y', x', c) = cell a (y', x', c)"
  using assms
proof (induction ts arbitrary: a)
  case Nil
  then show ?case by simp
next
  case (Cons t ts)
  obtain ny nx wt where t: "t = (ny, nx, wt)" by (cases t)
  show ?case using Cons by (simp add: t write_neighbor_frame)
qed

lemma fold_write_sum:
  assumes "length err = 3" "c < 3"
    and "distinct (map (\<lambda>(ny, nx, wt). (ny, nx)) ts)"
    and "\<forall>(ny, nx, wt) \<in> set ts.
           0 \<le> cell a (ny, nx, c) + err ! c * wt \<and> cell a (ny, nx, c) + err ! c * wt \<le> 255"
  shows "(\<Sum>(ny, nx, wt) \<leftarrow> ts. cell (fold (write_neighbor err) ts a) (ny, nx, c) - cell a (ny, nx, c))
         = err ! c * (\<Sum>(ny, nx, wt) \<leftarrow> ts. wt)"
  using assms(3,4)
proof (induction ts arbitrary: a)
  case Nil
  then show ?case by simp
next
  case (Cons t ts)
  obtain ny nx wt where t: "t = (ny, nx, wt)" by (cases t)
  let ?a' = "write_neighbor err t a"
  let ?fin = "fold (write_neighbor err) ts ?a'"
  from Cons.prems(1) have notin: "(ny, nx) \<notin> (\<lambda>(ny, nx, wt). (ny, nx)) ` set ts"
    and dist: "distinct (map (\<lambda>(ny, nx, wt). (ny, nx)) ts)" by (auto simp: t)
  have same: "\<And>ny' nx' wt'. (ny', nx', wt') \<in> set ts \<Longrightarrow> cell ?a' (ny', nx', c) = cell a (ny', nx', c)"
  proof -
    fix ny' nx' wt' assume "(ny', nx', wt') \<in> set ts"
    with notin have "(ny', nx') \<noteq> (ny, nx)" by force
    then show "cell ?a' (ny', nx', c) = cell a (ny', nx', c)"
      using assms(1) by (auto simp: t write_neighbor_cell)
  qed
  have noclip': "\<forall>(ny, nx, wt) \<in> set ts.
           0 \<le> cell ?a' (ny, nx, c) + err ! c * wt \<and> cell ?a' (ny, nx, c) + err ! c * wt \<le> 255"
    using Cons.prems(2) same by auto
  have IH: "(\<Sum>(ny, nx, wt) \<leftarrow> ts. cell ?fin (ny, nx, c) - cell ?a' (ny, nx, c))
         = err ! c * (\<Sum>(ny, nx, wt) \<leftarrow> ts. wt)"
    by (rule Cons.IH [OF dist noclip'])
  have rest: "(\<Sum>(ny, nx, wt) \<leftarrow> ts. cell ?fin (ny, nx, c) - cell a (ny, nx, c))
            = (\<Sum>(ny, nx, wt) \<leftarrow> ts. cell ?fin (ny, nx, c) - cell ?a' (ny, nx, c))"
    by (rule arg_cong [where f = sum_list], rule map_cong) (auto simp: same)
  have head: "cell ?fin (ny, nx, c) = cell a (ny, nx, c) + err ! c * wt"
  proof -
    have "cell ?fin (ny, nx, c) = cell ?a' (ny, nx, c)"
      by (rule fold_write_other [OF notin])
    also have "\<dots> = np_clip (cell a (ny, nx, c) + err ! c * wt) 0 255"
      using assms(1,2) by (simp add: t write_neighbor_cell)
    also have "\<dots> = cell a (ny, nx, c) + err ! c * wt"
      using Cons.prems(2) by (simp add: t np_clip_def)
    finally show ?thesis .
  qed
  have "(\<Sum>(ny, nx, wt) \<leftarrow> t # ts. cell (fold (write_neighbor err) (t # ts) a) (ny, nx, c) - cell a (ny, nx, c))
        = (cell ?fin (ny, nx, c) - cell a (ny, nx, c))
          + (\<Sum>(ny, nx, wt) \<leftarrow> ts. cell ?fin (ny, nx, c) - cell a (ny, nx, c))"
    by (simp add: t)
  also have "\<dots> = err ! c * wt + err ! c * (\<Sum>(ny, nx, wt) \<leftarrow> ts. wt)"
    unfolding head rest IH by simp
  also have "\<dots> = err ! c * (\<Sum>(ny, nx, wt) \<leftarrow> t # ts. wt)"
    by (simp add: t algebra_simps)
  finally show ?case .
qed

lemma in_bounds_neighbors_distinct:
  "distinct (map (\<lambda>(ny, nx, wt). (ny, nx)) (in_bounds_neighbors a x y))"
  by (simp add: in_bounds_neighbors_def stencil_positions_def error_matrix_def)

lemma in_bounds_neighbors_in_range:
  "(ny, nx, wt) \<in> set (in_bounds_neighbors a x y) \<Longrightarrow>
     0 \<le> nx \<and> nx < int (width a) \<and> 0 \<le> ny \<and> ny < int (height a)"
  by (auto simp: in_bounds_neighbors_def)



text \<open>
  Claim C1, as stated, fails: the error actually added to a neighbour is what is left
  after clipping to \<open>[0, 255]\<close>. On an all-white 2 by 2 buffer, diffusing the
  error 255 from pixel (0, 0) reaches one in-bounds neighbour with weight 7/16 and adds
  nothing to it.
\<close>

theorem conservation_fails_when_clipped:
  "(\<Sum>(ny, nx, wt) \<leftarrow> in_bounds_neighbors white_2x2 0 0.
       cell (apply_error_diffusion white_2x2 0 0 [255, 255, 255]) (ny, nx, 0) - cell white_2x2 (ny, nx, 0))
   \<noteq> [255, 255, 255] ! 0 * (\<Sum>(ny, nx, wt) \<leftarrow> in_bounds_neighbors white_2x2 0 0. wt)"
  by (simp add: apply_error_diffusion_fold)
     (simp add: in_bounds_neighbors_def stencil_positions_def error_matrix_def white_2x2_def
        write_neighbor_def add_weighted_error_def np_clip_def)

lemma fold_write_at:
  assumes "length err = 3" "c < 3"
    and "distinct (map (\<lambda>(ny, nx, wt). (ny, nx)) ts)" and "(ny, nx, wt) \<in> set ts"
  shows "cell (fold (write_neighbor err) ts a) (ny, nx, c) = np_clip (cell a (ny, nx, c) + err ! c * wt) 0 255"
  using assms(3,4)
proof (induction ts arbitrary: a)
  case Nil
  then show ?case by simp
next
  case (Cons t ts)
  obtain ny' nx' wt' where t: "t = (ny', nx', wt')" by (cases t)
  from Cons.prems(1) have notin: "(ny', nx') \<notin> (\<lambda>(ny, nx, wt). (ny, nx)) ` set ts"
    and dist: "distinct (map (\<lambda>(ny, nx, wt). (ny, nx)) ts)" by (auto simp: t)
  show ?case
  proof (cases "(ny, nx, wt) \<in> set ts")
    case True
    with notin have ne: "(ny, nx) \<noteq> (ny', nx')" by force
    have "cell (fold (write_neighbor err) (t # ts) a) (ny, nx, c)
            = np_clip (cell (write_neighbor err t a) (ny, nx, c) + err ! c * wt) 0 255"
      using Cons.IH [OF dist True] by simp
    also have "cell (write_neighbor err t a) (ny, nx, c) = cell a (ny, nx, c)"
      using ne by (simp add: t write_neighbor_frame)
    finally show ?thesis .
  next
    case False
    with Cons.prems(2) have e: "ny' = ny" "nx' = nx" "wt' = wt" by (auto simp: t)
    have "cell (fold (write_neighbor err) (t # ts) a) (ny, nx, c)
            = cell (write_neighbor err t a) (ny, nx, c)"
      using fold_write_other [OF notin] by (simp add: e)
    also have "\<dots> = np_clip (cell a (ny, nx, c) + err ! c * wt) 0 255"
      using assms(1,2) by (simp add: t e write_neighbor_cell)
    finally show ?thesis .
  qed
qed

lemma in_bounds_neighbors_weights:
  "subseq (map (\<lambda>(ny, nx, wt). wt) (in_bounds_neighbors a x y)) [7 / 16, 3 / 16, 5 / 16, 1 / 16]"
proof -
  let ?P = "\<lambda>(dy, dx). 0 \<le> x + int dx - 1 \<and> x + int dx - 1 < int (width a)
               \<and> 0 \<le> y + int dy + 1 \<and> y + int dy + 1 < int (height a)"
  let ?w = "\<lambda>(dy, dx). error_matrix ! dy ! dx"
  let ?pos = "[(0, 2), (1, 0), (1, 1), (1, 2)] :: (nat \<times> nat) list"
  have f: "filter (\<lambda>(dy, dx). 0 \<le> x + int dx - 1 \<and> x + int dx - 1 < int (width a) \<and>
             0 \<le> y + int dy + 1 \<and> y + int dy + 1 < int (height a) \<and>
             error_matrix ! dy ! dx > 0) stencil_positions = filter ?P ?pos"
    by (simp add: stencil_positions_def error_matrix_def)
  have m: "map (\<lambda>(ny, nx, wt). wt) (in_bounds_neighbors a x y) = map ?w (filter ?P ?pos)"
    unfolding in_bounds_neighbors_def f by (simp add: case_prod_unfold comp_def)
  have "subseq (map ?w (filter ?P ?pos)) (map ?w ?pos)"
    by (intro subseq_map subseq_filter_left)
  moreover have "map ?w ?pos = [7 / 16, 3 / 16, 5 / 16, 1 / 16]"
    by (simp add: error_matrix_def)
  ultimately show ?thesis by (simp only: m)
qed

text \<open>
  Claim C1, amended. The weights of the matrix sum to 1. Diffusing the error of a pixel
  writes to a list of neighbours, each a different pixel inside the buffer, with some of
  the weights 7/16, 3/16, 5/16 and 1/16 in this order; each write adds the weight times
  the error and clips the sum to \<open>[0, 255]\<close>, and no other pixel changes. If none of
  these sums leaves \<open>[0, 255]\<close> in channel \<open>c\<close>, the error added to the written
  neighbours is the pixel's error times the sum of the weights applied, and it is the
  whole error when all four weights are applied. Which neighbours are written is not
  part of the statement.
\<close>

theorem error_diffusion_conservation:
  assumes "length err = 3" and "c < 3"
  shows "sum_list (concat error_matrix) = 1
       \<and> (\<exists>ts. distinct (map (\<lambda>(ny, nx, wt). (ny, nx)) ts)
              \<and> subseq (map (\<lambda>(ny, nx, wt). wt) ts) [7 / 16, 3 / 16, 5 / 16, 1 / 16]
              \<and> (\<forall>(ny, nx, wt) \<in> set ts.
                    0 \<le> ny \<and> ny < int (height a) \<and> 0 \<le> nx \<and> nx < int (width a)
                    \<and> cell (apply_error_diffusion a x y err) (ny, nx, c)
                        = np_clip (cell a (ny, nx, c) + err ! c * wt) 0 255)
              \<and> (\<forall>y' x'. (y', x') \<notin> (\<lambda>(ny, nx, wt). (ny, nx)) ` set ts \<longrightarrow>
                    cell (apply_error_diffusion a x y err) (y', x', c) = cell a (y', x', c))
              \<and> ((\<forall>(ny, nx, wt) \<in> set ts.
                     0 \<le> cell a (ny, nx, c) + err ! c * wt \<and> cell a (ny, nx, c) + err ! c * wt \<le> 255) \<longrightarrow>
                   (\<Sum>(ny, nx, wt) \<leftarrow> ts.
                       cell (apply_error_diffusion a x y err) (ny, nx, c) - cell a (ny, nx, c))
                     = err ! c * (\<Sum>(ny, nx, wt) \<leftarrow> ts. wt)
                   \<and> (length ts = 4 \<longrightarrow>
                        (\<Sum>(ny, nx, wt) \<leftarrow> ts.
                           cell (apply_error_diffusion a x y err) (ny, nx, c) - cell a (ny, nx, c))
                          = err ! c)))"
proof -
  let ?ts = "in_bounds_neighbors a x y"
  let ?a' = "apply_error_diffusion a x y err"
  have one: "sum_list (concat error_matrix) = 1"
    by (simp add: error_matrix_def)
  have d: "distinct (map (\<lambda>(ny, nx, wt). (ny, nx)) ?ts)"
    by (rule in_bounds_neighbors_distinct)
  have w: "subseq (map (\<lambda>(ny, nx, wt). wt) ?ts) [7 / 16, 3 / 16, 5 / 16, 1 / 16]"
    by (rule in_bounds_neighbors_weights)
  have at: "\<forall>(ny, nx, wt) \<in> set ?ts.
              0 \<le> ny \<and> ny < int (height a) \<and> 0 \<le> nx \<and> nx < int (width a)
              \<and> cell ?a' (ny, nx, c) = np_clip (cell a (ny, nx, c) + err ! c * wt) 0 255"
    using in_bounds_neighbors_in_range [of _ _ _ a x y] fold_write_at [OF assms d]
    by (auto simp: apply_error_diffusion_fold)
  have fr: "\<forall>y' x'. (y', x') \<notin> (\<lambda>(ny, nx, wt). (ny, nx)) ` set ?ts \<longrightarrow>
              cell ?a' (y', x', c) = cell a (y', x', c)"
    by (simp add: apply_error_diffusion_fold fold_write_other)
  have cons: "(\<Sum>(ny, nx, wt) \<leftarrow> ?ts. cell ?a' (ny, nx, c) - cell a (ny, nx, c))
                = err ! c * (\<Sum>(ny, nx, wt) \<leftarrow> ?ts. wt)
              \<and> (length ?ts = 4 \<longrightarrow>
                   (\<Sum>(ny, nx, wt) \<leftarrow> ?ts. cell ?a' (ny, nx, c) - cell a (ny, nx, c)) = err ! c)"
    if nc: "\<forall>(ny, nx, wt) \<in> set ?ts.
              0 \<le> cell a (ny, nx, c) + err ! c * wt \<and> cell a (ny, nx, c) + err ! c * wt \<le> 255"
  proof -
    have eq: "(\<Sum>(ny, nx, wt) \<leftarrow> ?ts. cell ?a' (ny, nx, c) - cell a (ny, nx, c))
                = err ! c * (\<Sum>(ny, nx, wt) \<leftarrow> ?ts. wt)"
      unfolding apply_error_diffusion_fold by (rule fold_write_sum [OF assms d nc])
    have "(\<Sum>(ny, nx, wt) \<leftarrow> ?ts. wt) = 1" if "length ?ts = 4"
    proof -
      from that have "length (map (\<lambda>(ny, nx, wt). wt) ?ts) = length [7 / 16, 3 / 16, 5 / 16, 1 / 16 :: rat]"
        by simp
      with w have "map (\<lambda>(ny, nx, wt). wt) ?ts = [7 / 16, 3 / 16, 5 / 16, 1 / 16]"
        by (rule subseq_same_length)
      then have "sum_list (map (\<lambda>(ny, nx, wt). wt) ?ts) = 1" by simp
      then show ?thesis by (simp add: case_prod_unfold)
    qed
    with eq show ?thesis by simp
  qed
  from one d w at fr cons show ?thesis by blast
qed

lemma gray_3x3_neighbors:
  "in_bounds_neighbors gray_3x3 1 0 = [(1, 2, 7 / 16), (2, 0, 3 / 16), (2, 1, 5 / 16), (2, 2, 1 / 16)]"
  by (simp add: in_bounds_neighbors_def stencil_positions_def error_matrix_def gray_3x3_def)

text \<open>
  The theorem on a buffer of three rows and columns with 100 in every cell, at the
  middle pixel of the first row with the error 16: nothing is clipped, and the four
  pixels that change gain 16 in all.
\<close>

theorem error_diffusion_conservation_witness:
  "length [16, 16, 16 :: rat] = 3 \<and> (0 :: nat) < 3
   \<and> (\<exists>ts. distinct (map (\<lambda>(ny, nx, wt). (ny, nx)) ts)
          \<and> length ts = 4
          \<and> list_all (\<lambda>(ny, nx, wt).
                 cell gray_3x3 (ny, nx, 0) + [16, 16, 16] ! 0 * wt
                   = cell (apply_error_diffusion gray_3x3 1 0 [16, 16, 16]) (ny, nx, 0)) ts
          \<and> (\<Sum>(ny, nx, wt) \<leftarrow> ts.
                 cell (apply_error_diffusion gray_3x3 1 0 [16, 16, 16]) (ny, nx, 0)
                   - cell gray_3x3 (ny, nx, 0)) = 16)"
proof -
  let ?a' = "apply_error_diffusion gray_3x3 1 0 [16, 16, 16]"
  have l: "length [16, 16, 16 :: rat] = 3" and c0: "(0 :: nat) < 3" by simp_all
  from error_diffusion_conservation [OF l c0, of gray_3x3 1 0] obtain ts where
    d: "distinct (map (\<lambda>(ny, nx, wt). (ny, nx)) ts)"
    and w: "subseq (map (\<lambda>(ny, nx, wt). wt) ts) [7 / 16, 3 / 16, 5 / 16, 1 / 16]"
    and at: "\<forall>(ny, nx, wt) \<in> set ts.
               0 \<le> ny \<and> ny < int (height gray_3x3) \<and> 0 \<le> nx \<and> nx < int (width gray_3x3)
               \<and> cell ?a' (ny, nx, 0) = np_clip (cell gray_3x3 (ny, nx, 0) + [16, 16, 16] ! 0 * wt) 0 255"
    and fr: "\<forall>y' x'. (y', x') \<notin> (\<lambda>(ny, nx, wt). (ny, nx)) ` set ts \<longrightarrow>
               cell ?a' (y', x', 0) = cell gray_3x3 (y', x', 0)"
    and cons: "(\<forall>(ny, nx, wt) \<in> set ts.
                 0 \<le> cell gray_3x3 (ny, nx, 0) + [16, 16, 16] ! 0 * wt
                 \<and> cell gray_3x3 (ny, nx, 0) + [16, 16, 16] ! 0 * wt \<le> 255) \<longrightarrow>
               (\<Sum>(ny, nx, wt) \<leftarrow> ts. cell ?a' (ny, nx, 0) - cell gray_3x3 (ny, nx, 0))
                 = [16, 16, 16] ! 0 * (\<Sum>(ny, nx, wt) \<leftarrow> ts. wt)
               \<and> (length ts = 4 \<longrightarrow>
                    (\<Sum>(ny, nx, wt) \<leftarrow> ts. cell ?a' (ny, nx, 0) - cell gray_3x3 (ny, nx, 0))
                      = [16, 16, 16] ! 0)"
    by blast
  have wts: "wt \<in> {7 / 16, 3 / 16, 5 / 16, 1 / 16}" if "(ny, nx, wt) \<in> set ts" for ny nx wt
  proof -
    from that have "wt \<in> set (map (\<lambda>(ny, nx, wt). wt) ts)" by force
    from list_emb_set [OF w this] obtain v where "v \<in> set [7 / 16, 3 / 16, 5 / 16, 1 / 16 :: rat]" "wt = v"
      by blast
    then show ?thesis by simp
  qed
  have nc: "\<forall>(ny, nx, wt) \<in> set ts.
              0 \<le> cell gray_3x3 (ny, nx, 0) + [16, 16, 16] ! 0 * wt
              \<and> cell gray_3x3 (ny, nx, 0) + [16, 16, 16] ! 0 * wt \<le> 255"
    by (auto simp: gray_3x3_def dest!: wts)
  have changed: "cell ?a' (1, 2, 0) \<noteq> cell gray_3x3 (1, 2, 0)" "cell ?a' (2, 0, 0) \<noteq> cell gray_3x3 (2, 0, 0)"
    "cell ?a' (2, 1, 0) \<noteq> cell gray_3x3 (2, 1, 0)" "cell ?a' (2, 2, 0) \<noteq> cell gray_3x3 (2, 2, 0)"
    by (simp_all add: apply_error_diffusion_fold gray_3x3_neighbors)
       (simp_all add: write_neighbor_def add_weighted_error_def np_clip_def gray_3x3_def)
  from changed fr have "{(1, 2), (2, 0), (2, 1), (2, 2)} \<subseteq> (\<lambda>(ny, nx, wt). (ny, nx)) ` set ts"
    by auto
  then have "card {(1 :: int, 2 :: int), (2, 0), (2, 1), (2, 2)} \<le> card ((\<lambda>(ny, nx, wt). (ny, nx)) ` set ts)"
    by (intro card_mono) auto
  also have "\<dots> \<le> length ts"
    by (metis card_image_le card_length le_trans List.finite_set)
  finally have "4 \<le> length ts" by simp
  moreover have "length ts \<le> 4" using list_emb_length [OF w] by simp
  ultimately have len: "length ts = 4" by simp
  from cons nc len have total:
    "(\<Sum>(ny, nx, wt) \<leftarrow> ts. cell ?a' (ny, nx, 0) - cell gray_3x3 (ny, nx, 0)) = 16"
    by simp
  have each: "list_all (\<lambda>(ny, nx, wt).
                 cell gray_3x3 (ny, nx, 0) + [16, 16, 16] ! 0 * wt = cell ?a' (ny, nx, 0)) ts"
    unfolding list_all_iff
  proof
    fix t assume t: "t \<in> set ts"
    obtain ny nx wt where e: "t = (ny, nx, wt)" by (cases t)
    from at t e have "cell ?a' (ny, nx, 0) = np_clip (cell gray_3x3 (ny, nx, 0) + [16, 16, 16] ! 0 * wt) 0 255"
      by auto
    moreover from nc t e have "0 \<le> cell gray_3x3 (ny, nx, 0) + [16, 16, 16] ! 0 * wt
              \<and> cell gray_3x3 (ny, nx, 0) + [16, 16, 16] ! 0 * wt \<le> 255" by auto
    ultimately show "case t of (ny, nx, wt) \<Rightarrow>
        cell gray_3x3 (ny, nx, 0) + [16, 16, 16] ! 0 * wt = cell ?a' (ny, nx, 0)"
      by (simp add: e np_clip_def)
  qed
  from d len each total show ?thesis by auto
qed

text \<open>
  The rows the loop writes to. The comment on the matrix in \<open>__init__\<close> places the
  weight 7/16 on the right neighbour, in the row of the pixel, and the other three weights
  on the row below. The loop adds one to the row offset (\<open>ny = y + dy + 1\<close>): the
  weight 7/16 goes to the pixel below and to the right, the other three weights two rows
  down. At the centre of a 3 by 3 buffer only the bottom right corner is written, the
  right neighbour keeps its value and 9/16 of the error is dropped; in the last row
  nothing is written.
\<close>

lemma stencil_row_offset:
  "in_bounds_neighbors gray_3x3 1 1 = [(2, 2, 7 / 16)]
   \<and> cell (apply_error_diffusion gray_3x3 1 1 [16, 16, 16]) (1, 2, 0) = 100
   \<and> cell (apply_error_diffusion gray_3x3 1 1 [16, 16, 16]) (2, 2, 0) = 107
   \<and> in_bounds_neighbors gray_3x3 1 2 = []"
  by (simp add: in_bounds_neighbors_def stencil_positions_def error_matrix_def gray_3x3_def
        apply_error_diffusion_def diffuse_to_def add_weighted_error_def np_clip_def Let_def)

text \<open>
  Claim C4. Error diffusion at any pixel of any buffer keeps the shape, writes only to
  neighbours with \<open>0 \<le> nx < width\<close> and \<open>0 \<le> ny < height\<close>, leaves every
  other cell as it was, in particular every cell outside the buffer, and on a buffer of
  at most one row it changes nothing at all.
\<close>

theorem error_diffusion_in_bounds:
  "height (apply_error_diffusion a x y err) = height a
   \<and> width (apply_error_diffusion a x y err) = width a
   \<and> (\<forall>(ny, nx, wt) \<in> set (in_bounds_neighbors a x y).
         0 \<le> nx \<and> nx < int (width a) \<and> 0 \<le> ny \<and> ny < int (height a))
   \<and> (\<forall>y' x' c. (y', x') \<notin> (\<lambda>(ny, nx, wt). (ny, nx)) ` set (in_bounds_neighbors a x y) \<longrightarrow>
         cell (apply_error_diffusion a x y err) (y', x', c) = cell a (y', x', c))
   \<and> (\<forall>i. \<not> in_array a i \<longrightarrow> cell (apply_error_diffusion a x y err) i = cell a i)
   \<and> (0 \<le> y \<and> height a \<le> 1 \<longrightarrow> apply_error_diffusion a x y err = a)"
proof -
  have rng: "\<forall>(ny, nx, wt) \<in> set (in_bounds_neighbors a x y).
         0 \<le> nx \<and> nx < int (width a) \<and> 0 \<le> ny \<and> ny < int (height a)"
    using in_bounds_neighbors_in_range [of _ _ _ a x y] by auto
  have frame: "\<forall>y' x' c. (y', x') \<notin> (\<lambda>(ny, nx, wt). (ny, nx)) ` set (in_bounds_neighbors a x y) \<longrightarrow>
         cell (apply_error_diffusion a x y err) (y', x', c) = cell a (y', x', c)"
    by (simp add: apply_error_diffusion_fold fold_write_other)
  have out: "cell (apply_error_diffusion a x y err) i = cell a i" if "\<not> in_array a i" for i
  proof -
    obtain y' x' c where i: "i = (y', x', c)" by (cases i)
    show ?thesis
    proof (cases "c < 3")
      case True
      with that have "(y', x') \<notin> (\<lambda>(ny, nx, wt). (ny, nx)) ` set (in_bounds_neighbors a x y)"
        using rng by (auto simp: i in_array_def)
      with frame show ?thesis by (simp add: i)
    next
      case False
      then show ?thesis by (simp add: i apply_error_diffusion_fold fold_write_off_channel)
    qed
  qed
  have small: "apply_error_diffusion a x y err = a" if "0 \<le> y \<and> height a \<le> 1"
  proof -
    from that have "in_bounds_neighbors a x y = []"
      by (simp add: in_bounds_neighbors_def stencil_positions_def)
    then show ?thesis by (simp add: apply_error_diffusion_fold)
  qed
  show ?thesis using rng frame out small by (simp add: apply_error_diffusion_fold)
qed


theorem error_diffusion_in_bounds_witness:
  "\<not> in_array gray_3x3 (3, 3, 0)
   \<and> cell (apply_error_diffusion gray_3x3 2 2 [16, 16, 16]) (3, 3, 0) = cell gray_3x3 (3, 3, 0)
   \<and> (0 :: int) \<le> 0 \<and> height black_1x1 \<le> 1
   \<and> apply_error_diffusion black_1x1 0 0 [16, 16, 16] = black_1x1"
  using error_diffusion_in_bounds [of gray_3x3 2 2 "[16, 16, 16]"]
        error_diffusion_in_bounds [of black_1x1 0 0 "[16, 16, 16]"]
  by (simp add: in_array_def gray_3x3_def black_1x1_def)




subsection \<open>The pixel loop\<close>

lemma lower_lab: "lower ''lab'' = ''lab''"
  by (simp add: lower_def lower_char_def)

lemma find_closest_color_lab_ok:
  assumes "MinecraftPalette_init f colors = Inr p"
  shows "\<exists>idx. find_closest_color f p target ''lab'' = Inr (idx, colors_rgb p ! idx, colors ! idx)
           \<and> idx < length (colors_rgb p)"
  using find_closest_color_first_min [OF assms, of "''lab''" target]
  by (auto simp: Let_def)

lemma ditherer_find_closest_color_ok:
  assumes "MinecraftPalette_init f colors = Inr (palette d)"
  shows "\<exists>idx. find_closest_color f (palette d) (r, g, b) ''lab''
                 = Inr (idx, colors_rgb (palette d) ! idx, colors ! idx)
           \<and> idx < length (colors_rgb (palette d))
           \<and> ditherer_find_closest_color f d (r, g, b)
               = Inr (idx, colors_rgb (palette d) ! idx,
                      quantization_error (r, g, b) (colors_rgb (palette d) ! idx))"
proof -
  from find_closest_color_lab_ok [OF assms, of "(r, g, b)"] obtain idx where
    i: "find_closest_color f (palette d) (r, g, b) ''lab'' = Inr (idx, colors_rgb (palette d) ! idx, colors ! idx)"
       "idx < length (colors_rgb (palette d))" by blast
  then show ?thesis
    by (simp add: ditherer_find_closest_color_def)
qed


lemma add_weighted_error_range:
  "in_range a \<Longrightarrow> in_range (add_weighted_error ny nx we c a)"
  by (auto simp: in_range_def add_weighted_error_def Let_def np_clip_def)

lemma write_neighbor_range: "in_range a \<Longrightarrow> in_range (write_neighbor err t a)"
  by (cases t) (simp add: write_neighbor_def add_weighted_error_range)

lemma fold_write_range: "in_range a \<Longrightarrow> in_range (fold (write_neighbor err) ts a)"
  by (induction ts arbitrary: a) (auto simp: write_neighbor_range)

lemma apply_error_diffusion_range: "in_range a \<Longrightarrow> in_range (apply_error_diffusion a x y err)"
  by (simp add: apply_error_diffusion_fold fold_write_range)

lemma apply_error_diffusion_shape [simp]:
  "height (apply_error_diffusion a x y err) = height a"
  "width (apply_error_diffusion a x y err) = width a"
  by (simp_all add: apply_error_diffusion_fold)

lemma write_neighbor_depth [simp]: "depth (write_neighbor err t a) = depth a"
  by (cases t) (simp add: write_neighbor_def add_weighted_error_def Let_def)

lemma apply_error_diffusion_depth [simp]: "depth (apply_error_diffusion a x y err) = depth a"
proof -
  have "depth (fold (write_neighbor err) ts a) = depth a" for ts
    by (induction ts arbitrary: a) simp_all
  then show ?thesis by (simp add: apply_error_diffusion_fold)
qed

lemma astype_float64_range: "in_range (astype_float64 a)"
proof -
  have "0 \<le> (of_nat (unat w) :: rat) \<and> (of_nat (unat w) :: rat) \<le> 255" for w :: uint8
  proof -
    have "unat w < 256" using unsigned_less [of w, where ?'a = nat] by simp
    then have "unat w \<le> 255" by simp
    then have a: "(of_nat (unat w) :: rat) \<le> of_nat 255" by (simp only: of_nat_le_iff)
    have b: "(of_nat 255 :: rat) = 255" by simp
    have c: "0 \<le> (of_nat (unat w) :: rat)" by (rule of_nat_0_le_iff)
    from a [unfolded b] c show ?thesis by blast
  qed
  then show ?thesis by (simp add: in_range_def astype_float64_def)
qed

lemma astype_int_range:
  assumes "0 \<le> v" "v \<le> 255"
  shows "astype_int v = \<lfloor>v\<rfloor> \<and> 0 \<le> astype_int v \<and> astype_int v \<le> 255"
proof -
  have "\<lfloor>v\<rfloor> \<le> 255" using assms(2) by (simp add: floor_le_iff)
  then show ?thesis using assms(1) by (simp add: astype_int_def)
qed

lemma current_rgb_range:
  assumes "in_range a"
  shows "current_rgb a y x = (\<lfloor>cell a (y, x, 0)\<rfloor>, \<lfloor>cell a (y, x, 1)\<rfloor>, \<lfloor>cell a (y, x, 2)\<rfloor>)
         \<and> channel_ok (current_rgb a y x)"
proof -
  have c: "astype_int (cell a (y, x, c)) = \<lfloor>cell a (y, x, c)\<rfloor>
           \<and> 0 \<le> astype_int (cell a (y, x, c)) \<and> astype_int (cell a (y, x, c)) \<le> 255" for c
    using assms by (intro astype_int_range) (simp_all add: in_range_def)
  have eq: "current_rgb a y x = (\<lfloor>cell a (y, x, 0)\<rfloor>, \<lfloor>cell a (y, x, 1)\<rfloor>, \<lfloor>cell a (y, x, 2)\<rfloor>)"
    unfolding current_rgb_def using c [of 0] c [of 1] c [of 2] by (simp only:)
  have ok: "channel_ok (current_rgb a y x)"
    unfolding current_rgb_def channel_ok_def prod.case using c [of 0] c [of 1] c [of 2] by blast
  from eq ok show ?thesis ..
qed

lemma uint_word_of_int_uint8: "uint (word_of_int r :: uint8) = r mod 256"
  by (simp add: uint_word_of_int)

lemma as_uint8_channel_ok: "channel_ok c \<Longrightarrow> as_uint8 c = c"
  by (cases c) (simp add: as_uint8_def channel_ok_def)

lemma set_pixel_shape [simp]:
  "height (set_pixel a y x c) = height a" "width (set_pixel a y x c) = width a"
  by (auto simp: set_pixel_def split: prod.splits)

lemma pixel_at_set_pixel_same: "pixel_at (set_pixel a y x c) y x = as_uint8 c"
  by (cases c) (simp add: pixel_at_def set_pixel_def as_uint8_def uint_word_of_int_uint8)

lemma pixel_at_set_pixel_other:
  "(y', x') \<noteq> (y, x) \<Longrightarrow> pixel_at (set_pixel a y x c) y' x' = pixel_at a y' x'"
  by (auto simp: pixel_at_def set_pixel_def split: prod.splits)

lemma dither_pixel_ok:
  assumes "MinecraftPalette_init f colors = Inr (palette (ditherer st))"
    and "depth (image_array st) = Some 3"
  shows "\<exists>st' idx. dither_pixel f st (y, x) = Inr st'
           \<and> find_closest_color f (palette (ditherer st)) (current_rgb (image_array st) y x) ''lab''
               = Inr (idx, colors_rgb (palette (ditherer st)) ! idx, colors ! idx)
           \<and> idx < length (colors_rgb (palette (ditherer st)))
           \<and> output_array st' = set_pixel (output_array st) y x (colors_rgb (palette (ditherer st)) ! idx)
           \<and> image_array st' = apply_error_diffusion (image_array st) x y
                 (quantization_error (current_rgb (image_array st) y x)
                    (colors_rgb (palette (ditherer st)) ! idx))
           \<and> palette (ditherer st') = palette (ditherer st)"
proof -
  obtain r g b where c: "current_rgb (image_array st) y x = (r, g, b)"
    by (cases "current_rgb (image_array st) y x")
  from ditherer_find_closest_color_ok [OF assms(1), of r g b] obtain idx where
    i: "find_closest_color f (palette (ditherer st)) (r, g, b) ''lab''
          = Inr (idx, colors_rgb (palette (ditherer st)) ! idx, colors ! idx)"
       "idx < length (colors_rgb (palette (ditherer st)))"
       "ditherer_find_closest_color f (ditherer st) (r, g, b)
               = Inr (idx, colors_rgb (palette (ditherer st)) ! idx,
                      quantization_error (r, g, b) (colors_rgb (palette (ditherer st)) ! idx))"
    by blast
  show ?thesis
    using i assms(2) by (auto simp: dither_pixel_def c Let_def update_progress_def)
qed

lemma sweep_append:
  "sweep f st (ps @ qs) = (case sweep f st ps of Inl e \<Rightarrow> Inl e | Inr st' \<Rightarrow> sweep f st' qs)"
  by (induction ps arbitrary: st) (auto split: sum.splits)

lemma sweep_inv:
  assumes "MinecraftPalette_init f colors = Inr (palette (ditherer st))"
    and "in_range (image_array st)" and "depth (image_array st) = Some 3"
  shows "\<exists>st'. sweep f st ps = Inr st'
           \<and> palette (ditherer st') = palette (ditherer st)
           \<and> in_range (image_array st')
           \<and> height (image_array st') = height (image_array st)
           \<and> width (image_array st') = width (image_array st)
           \<and> height (output_array st') = height (output_array st)
           \<and> width (output_array st') = width (output_array st)
           \<and> (\<forall>y x. (y, x) \<notin> set ps \<longrightarrow>
                 pixel_at (output_array st') y x = pixel_at (output_array st) y x)
           \<and> (\<forall>y x. (y, x) \<in> set ps \<longrightarrow>
                 pixel_at (output_array st') y x \<in> as_uint8 ` set (colors_rgb (palette (ditherer st))))"
  using assms
proof (induction ps arbitrary: st)
  case Nil
  then show ?case by simp
next
  case (Cons p ps)
  obtain y x where p: "p = (y, x)" by (cases p)
  let ?cs = "colors_rgb (palette (ditherer st))"
  from dither_pixel_ok [OF Cons.prems(1,3), of y x] obtain st1 idx err where
    s1: "dither_pixel f st (y, x) = Inr st1" "idx < length ?cs"
        "output_array st1 = set_pixel (output_array st) y x (?cs ! idx)"
        "image_array st1 = apply_error_diffusion (image_array st) x y err"
        "palette (ditherer st1) = palette (ditherer st)"
    by blast
  have dep1: "depth (image_array st1) = Some 3" using Cons.prems(3) s1(4) by simp
  have pal1: "MinecraftPalette_init f colors = Inr (palette (ditherer st1))"
    using Cons.prems(1) s1(5) by simp
  have rng1: "in_range (image_array st1)"
    using Cons.prems(2) s1(4) by (simp add: apply_error_diffusion_range)
  from Cons.IH [OF pal1 rng1 dep1] obtain st' where
    s': "sweep f st1 ps = Inr st'" "palette (ditherer st') = palette (ditherer st1)"
        "in_range (image_array st')"
        "height (image_array st') = height (image_array st1)"
        "width (image_array st') = width (image_array st1)"
        "height (output_array st') = height (output_array st1)"
        "width (output_array st') = width (output_array st1)"
        "\<forall>y x. (y, x) \<notin> set ps \<longrightarrow> pixel_at (output_array st') y x = pixel_at (output_array st1) y x"
        "\<forall>y x. (y, x) \<in> set ps \<longrightarrow>
            pixel_at (output_array st') y x \<in> as_uint8 ` set (colors_rgb (palette (ditherer st1)))"
    by blast
  have run: "sweep f st (p # ps) = Inr st'" using s1(1) s'(1) by (simp add: p)
  have frame: "\<forall>y' x'. (y', x') \<notin> set (p # ps) \<longrightarrow>
                 pixel_at (output_array st') y' x' = pixel_at (output_array st) y' x'"
    using s'(8) s1(3) by (simp add: p pixel_at_set_pixel_other)
  have inpal: "\<forall>y' x'. (y', x') \<in> set (p # ps) \<longrightarrow>
                 pixel_at (output_array st') y' x' \<in> as_uint8 ` set ?cs"
  proof (intro allI impI)
    fix y' x' assume m: "(y', x') \<in> set (p # ps)"
    show "pixel_at (output_array st') y' x' \<in> as_uint8 ` set ?cs"
    proof (cases "(y', x') \<in> set ps")
      case True
      with s'(9) s1(5) show ?thesis by simp
    next
      case False
      with m have e: "y' = y" "x' = x" by (auto simp: p)
      from False s'(8) have "pixel_at (output_array st') y' x' = pixel_at (output_array st1) y' x'" by simp
      also have "\<dots> = as_uint8 (?cs ! idx)" by (simp add: e s1(3) pixel_at_set_pixel_same)
      finally show ?thesis using s1(2) by simp
    qed
  qed
  have shape: "height (image_array st') = height (image_array st)"
      "width (image_array st') = width (image_array st)"
      "height (output_array st') = height (output_array st)"
      "width (output_array st') = width (output_array st)"
    using s'(4-7) s1(3,4) by simp_all
  have pal': "palette (ditherer st') = palette (ditherer st)" using s'(2) s1(5) by simp
  from run pal' s'(3) shape frame inpal show ?case by blast
qed

lemma length_pixel_order [simp]: "length (pixel_order h w) = h * w"
  by (induction h) (simp_all add: pixel_order_def)

lemma pixel_order_Suc:
  "pixel_order (Suc h) w = pixel_order h w @ map (\<lambda>x. (int h, int x)) [0..<w]"
  by (simp add: pixel_order_def)

lemma pixel_order_nth:
  "k < h * w \<Longrightarrow> pixel_order h w ! k = (int (k div w), int (k mod w))"
proof (induction h)
  case 0
  then show ?case by simp
next
  case (Suc h)
  show ?case
  proof (cases "k < h * w")
    case True
    then show ?thesis using Suc.IH by (simp add: pixel_order_Suc nth_append)
  next
    case False
    with Suc.prems have b: "h * w \<le> k" "k - h * w < w" by auto
    then have w: "0 < w" by auto
    obtain r where r: "k = h * w + r" "r < w" using b by (metis le_add_diff_inverse)
    have d: "k div w = h" "k mod w = k - h * w"
      using r w by simp_all
    show ?thesis using False b by (simp add: pixel_order_Suc nth_append d)
  qed
qed

lemma pixel_order_index:
  assumes "y < h" "x < w"
  shows "y * w + x < h * w \<and> pixel_order h w ! (y * w + x) = (int y, int x)"
proof -
  have "y * w + x < y * w + w" using assms by simp
  also have "\<dots> = Suc y * w" by simp
  also have "\<dots> \<le> h * w" using assms by (intro mult_le_mono1) simp
  finally have lt: "y * w + x < h * w" .
  have "(y * w + x) div w = y" "(y * w + x) mod w = x" using assms by simp_all
  with pixel_order_nth [OF lt] lt show ?thesis by simp
qed

lemma distinct_pixel_order: "distinct (pixel_order h w)"
proof -
  have "i = j" if "i < h * w" "j < h * w" "pixel_order h w ! i = pixel_order h w ! j" for i j
  proof -
    from that have "i div w = j div w" "i mod w = j mod w" by (simp_all add: pixel_order_nth)
    then show ?thesis by (metis div_mult_mod_eq)
  qed
  then show ?thesis by (auto simp: distinct_conv_nth)
qed

lemma nth_not_in_drop:
  assumes "distinct xs" "k < length xs"
  shows "xs ! k \<notin> set (drop (Suc k) xs)"
proof -
  have "distinct (take k xs @ xs ! k # drop (Suc k) xs)"
    using assms by (simp add: id_take_nth_drop [symmetric])
  then show ?thesis by simp
qed

lemma sweep_start_props:
  "palette (ditherer (sweep_start d source)) = palette d"
  "in_range (image_array (sweep_start d source))"
  "height (output_array (sweep_start d source)) = height source"
  "width (output_array (sweep_start d source)) = width source"
  "depth (image_array (sweep_start d source)) = depth source"
  by (simp_all add: sweep_start_def Let_def astype_float64_range)
     (simp_all add: zeros_like_def astype_float64_def)

lemma dither_pixel_depth:
  "dither_pixel f st p = Inr st1 \<Longrightarrow> depth (image_array st1) = depth (image_array st)"
  by (auto simp: dither_pixel_def Let_def split: prod.splits option.splits if_splits sum.splits)

lemma sweep_depth:
  "sweep f st ps = Inr st' \<Longrightarrow> depth (image_array st') = depth (image_array st)"
proof (induction ps arbitrary: st)
  case Nil
  then show ?case by simp
next
  case (Cons p ps)
  then obtain st1 where s: "dither_pixel f st p = Inr st1" "sweep f st1 ps = Inr st'"
    by (auto split: sum.splits)
  from Cons.IH [OF s(2)] dither_pixel_depth [OF s(1)] show ?case by simp
qed

lemma dither_array_pixel:
  assumes pal: "MinecraftPalette_init rgb_to_lab colors = Inr (palette d)"
    and dep: "depth source = Some 3"
    and y: "y < height source" and x: "x < width source"
  shows "\<exists>st idx out d'.
      sweep rgb_to_lab (sweep_start d source)
        (take (y * width source + x) (pixel_order (height source) (width source))) = Inr st
    \<and> current_rgb (image_array st) (int y) (int x)
        = (\<lfloor>cell (image_array st) (int y, int x, 0)\<rfloor>, \<lfloor>cell (image_array st) (int y, int x, 1)\<rfloor>,
           \<lfloor>cell (image_array st) (int y, int x, 2)\<rfloor>)
    \<and> channel_ok (current_rgb (image_array st) (int y) (int x))
    \<and> find_closest_color rgb_to_lab (palette d) (current_rgb (image_array st) (int y) (int x)) ''lab''
        = Inr (idx, colors_rgb (palette d) ! idx, colors ! idx)
    \<and> idx < length (colors_rgb (palette d))
    \<and> dither_array rgb_to_lab d source = Inr (out, d')
    \<and> height out = height source \<and> width out = width source
    \<and> pixel_at out (int y) (int x) = as_uint8 (colors_rgb (palette d) ! idx)"
proof -
  let ?ord = "pixel_order (height source) (width source)"
  let ?k = "y * width source + x"
  let ?st0 = "sweep_start d source"
  from pixel_order_index [OF y x] have k: "?k < length ?ord" and nth: "?ord ! ?k = (int y, int x)"
    by simp_all
  have split: "?ord = take ?k ?ord @ [(int y, int x)] @ drop (Suc ?k) ?ord"
    using id_take_nth_drop [OF k] nth by simp
  have pal0: "MinecraftPalette_init rgb_to_lab colors = Inr (palette (ditherer ?st0))"
    using pal by (simp add: sweep_start_props)
  have dep0: "depth (image_array ?st0) = Some 3"
    using dep by (simp add: sweep_start_props)
  from sweep_inv [OF pal0 sweep_start_props(2) dep0, of "take ?k ?ord"] obtain st where
    st: "sweep rgb_to_lab ?st0 (take ?k ?ord) = Inr st" "palette (ditherer st) = palette d"
        "in_range (image_array st)"
        "height (output_array st) = height source" "width (output_array st) = width source"
    by (auto simp: sweep_start_props)
  have depst: "depth (image_array st) = Some 3"
    using sweep_depth [OF st(1)] dep0 by simp
  have pal1: "MinecraftPalette_init rgb_to_lab colors = Inr (palette (ditherer st))"
    using pal st(2) by simp
  from dither_pixel_ok [OF pal1 depst, of "int y" "int x"] obtain st1 idx where
    s1: "dither_pixel rgb_to_lab st (int y, int x) = Inr st1"
        "find_closest_color rgb_to_lab (palette d) (current_rgb (image_array st) (int y) (int x)) ''lab''
           = Inr (idx, colors_rgb (palette d) ! idx, colors ! idx)"
        "idx < length (colors_rgb (palette d))"
        "output_array st1 = set_pixel (output_array st) (int y) (int x) (colors_rgb (palette d) ! idx)"
        "in_range (image_array st1)"
        "palette (ditherer st1) = palette d"
    using st(2,3) by (auto simp: apply_error_diffusion_range)
  have dep1: "depth (image_array st1) = Some 3"
    using dither_pixel_depth [OF s1(1)] depst by simp
  have pal2: "MinecraftPalette_init rgb_to_lab colors = Inr (palette (ditherer st1))"
    using pal s1(6) by simp
  from sweep_inv [OF pal2 s1(5) dep1, of "drop (Suc ?k) ?ord"] obtain st2 where
    s2: "sweep rgb_to_lab st1 (drop (Suc ?k) ?ord) = Inr st2"
        "height (output_array st2) = height (output_array st1)"
        "width (output_array st2) = width (output_array st1)"
        "\<forall>y' x'. (y', x') \<notin> set (drop (Suc ?k) ?ord) \<longrightarrow>
            pixel_at (output_array st2) y' x' = pixel_at (output_array st1) y' x'"
    by blast
  have notin: "(int y, int x) \<notin> set (drop (Suc ?k) ?ord)"
    using nth_not_in_drop [OF distinct_pixel_order k] nth by simp
  have px: "pixel_at (output_array st2) (int y) (int x) = as_uint8 (colors_rgb (palette d) ! idx)"
    using s2(4) notin by (simp add: s1(4) pixel_at_set_pixel_same)
  have "sweep rgb_to_lab ?st0 ?ord
          = sweep rgb_to_lab ?st0 (take ?k ?ord @ [(int y, int x)] @ drop (Suc ?k) ?ord)"
    using split by simp
  also have "\<dots> = Inr st2"
    by (simp only: sweep_append st(1) sum.case) (simp add: s1(1) s2(1))
  finally have run: "sweep rgb_to_lab ?st0 ?ord = Inr st2" .
  have da: "dither_array rgb_to_lab d source = Inr (output_array st2, update_progress (ditherer st2))"
    by (simp add: dither_array_def run)
  have shp: "height (output_array st2) = height source" "width (output_array st2) = width source"
    using s2(2,3) st(4,5) by (simp_all add: s1(4))
  from st(1) current_rgb_range [OF st(3), of "int y" "int x"] s1(2,3) da shp px
  show ?thesis by blast
qed

subsection \<open>Construction\<close>

text \<open>
  Claim C5. The palette constructor raises \<open>ValueError\<close> on an empty colour list.
  The ditherer does not: given the empty list as custom colours it takes the branch of
  no custom colours and is built with the default 61-colour palette.
\<close>

theorem empty_custom_colors_accepted:
  "MinecraftPalette_init rgb_to_lab [] = Inl ValueError
   \<and> MinecraftDitherer_init rgb_to_lab (Some []) = MinecraftDitherer_init rgb_to_lab None
   \<and> (\<exists>d. MinecraftDitherer_init rgb_to_lab (Some []) = Inr d
          \<and> CARPET_COLORS (palette d) = default_CARPET_COLORS)"
proof -
  have "\<exists>p. MinecraftPalette_init rgb_to_lab default_CARPET_COLORS = Inr p"
    by (simp add: MinecraftPalette_init_def default_CARPET_COLORS_def hex_to_rgb_def
          lstrip_hash_def hex_digit_def)
  then obtain p where p: "MinecraftPalette_init rgb_to_lab default_CARPET_COLORS = Inr p" ..
  from MinecraftPalette_init_shape [OF p] have "CARPET_COLORS p = default_CARPET_COLORS" by simp
  with p show ?thesis
    by (simp add: MinecraftDitherer_init_def) (simp add: MinecraftPalette_init_def)
qed

subsection \<open>The colour looked up for a pixel\<close>

lemma bw_init: "MinecraftPalette_init channels_as_lab [''#000000'', ''#FFFFFF''] = Inr (palette bw_ditherer)"
  by (simp add: MinecraftPalette_init_def hex_to_rgb_def lstrip_hash_def hex_digit_def
        bw_ditherer_def bw_palette_def channels_as_lab_def)

lemmas bw_lookup_defs = find_closest_color_def find_closest_color_lab_def lab_distances_def
  argmin_def closest_at_def getitem_def lower_def lower_char_def bw_ditherer_def bw_palette_def
  channels_as_lab_def

lemma bw_lookup_127:
  "find_closest_color channels_as_lab (palette bw_ditherer) (127, 127, 127) ''lab''
     = Inr (0, (0, 0, 0), ''#000000'')"
  by (simp add: bw_lookup_defs)

lemma bw_lookup_128:
  "find_closest_color channels_as_lab (palette bw_ditherer) (128, 128, 128) ''lab''
     = Inr (1, (255, 255, 255), ''#FFFFFF'')"
  by (simp add: bw_lookup_defs)

lemma pixel_order_2_2: "pixel_order 2 2 = [(0, 0), (0, 1), (1, 0), (1, 1)]"
  by (simp add: pixel_order_def numeral_2_eq_2 upt_rec)

text \<open>
  The source \<open>corner_2x2\<close> with the black and white palette. The pixel at the top left
  (2 in every channel) becomes black; its error 2 goes with the weight 7/16 to the pixel
  at the bottom right, the only cell the loop writes to before it reaches that pixel. There
  the working buffer holds 127 + 7/8.
\<close>

lemma corner_sweep3:
  "\<exists>st. sweep channels_as_lab (sweep_start bw_ditherer corner_2x2) [(0, 0), (0, 1), (1, 0)] = Inr st
      \<and> cell (image_array st) (1, 1, 0) = 1023 / 8
      \<and> cell (image_array st) (1, 1, 1) = 1023 / 8
      \<and> cell (image_array st) (1, 1, 2) = 1023 / 8"
  by (simp add: dither_pixel_def ditherer_find_closest_color_def sweep_start_def astype_float64_def
       zeros_like_def corner_2x2_def current_rgb_def astype_int_def Let_def
       bw_lookup_defs apply_error_diffusion_def diffuse_to_def add_weighted_error_def error_matrix_def
       np_clip_def update_progress_def set_pixel_def)

lemma floor_1023_8: "\<lfloor>1023 / 8 :: rat\<rfloor> = 127"
  by (rule floor_unique) simp_all

lemma round_1023_8: "round (1023 / 8 :: rat) = 128"
  by (rule round_unique) simp_all

lemma corner_dithered:
  "\<exists>out d'. dither_array channels_as_lab bw_ditherer corner_2x2 = Inr (out, d')
      \<and> pixel_at out 1 1 = (0, 0, 0)"
  by (simp add: dither_array_def pixel_order_2_2 corner_2x2_def)
     (simp add: dither_pixel_def ditherer_find_closest_color_def sweep_start_def astype_float64_def
       zeros_like_def current_rgb_def astype_int_def Let_def
       bw_lookup_defs apply_error_diffusion_def diffuse_to_def add_weighted_error_def error_matrix_def
       np_clip_def update_progress_def set_pixel_def pixel_at_def floor_1023_8)

text \<open>
  Claim C3 as stated does not hold: the working value is not rounded. At the bottom right
  pixel of \<open>corner_2x2\<close> the working buffer holds 127.875 in every channel when the
  loop reaches it. The colour looked up is \<open>(127, 127, 127)\<close>, the values cut off at the
  decimal point, whose nearest colour is black, and black is the output pixel. Rounded, the
  colour would be \<open>(128, 128, 128)\<close>, whose nearest colour is white.
\<close>

theorem lookup_truncates_not_rounds:
  "\<exists>st out d'.
      sweep channels_as_lab (sweep_start bw_ditherer corner_2x2)
        (take (1 * width corner_2x2 + 1) (pixel_order (height corner_2x2) (width corner_2x2))) = Inr st
    \<and> cell (image_array st) (1, 1, 0) = 1023 / 8
    \<and> cell (image_array st) (1, 1, 1) = 1023 / 8
    \<and> cell (image_array st) (1, 1, 2) = 1023 / 8
    \<and> current_rgb (image_array st) 1 1 = (127, 127, 127)
    \<and> (round (cell (image_array st) (1, 1, 0)), round (cell (image_array st) (1, 1, 1)),
        round (cell (image_array st) (1, 1, 2))) = (128, 128, 128)
    \<and> find_closest_color channels_as_lab (palette bw_ditherer) (127, 127, 127) ''lab''
        = Inr (0, (0, 0, 0), ''#000000'')
    \<and> find_closest_color channels_as_lab (palette bw_ditherer) (128, 128, 128) ''lab''
        = Inr (1, (255, 255, 255), ''#FFFFFF'')
    \<and> dither_array channels_as_lab bw_ditherer corner_2x2 = Inr (out, d')
    \<and> pixel_at out 1 1 = (0, 0, 0)"
proof -
  from corner_sweep3 obtain st where
    st: "sweep channels_as_lab (sweep_start bw_ditherer corner_2x2) [(0, 0), (0, 1), (1, 0)] = Inr st"
    and c: "cell (image_array st) (1, 1, 0) = 1023 / 8" "cell (image_array st) (1, 1, 1) = 1023 / 8"
      "cell (image_array st) (1, 1, 2) = 1023 / 8"
    by blast
  have tk: "take (1 * width corner_2x2 + 1) (pixel_order (height corner_2x2) (width corner_2x2))
              = [(0, 0), (0, 1), (1, 0)]"
    by (simp add: corner_2x2_def pixel_order_2_2)
  have cur: "current_rgb (image_array st) 1 1 = (127, 127, 127)"
    by (simp only: current_rgb_def astype_int_def c) (simp add: floor_1023_8)
  have rnd: "(round (cell (image_array st) (1, 1, 0)), round (cell (image_array st) (1, 1, 1)),
              round (cell (image_array st) (1, 1, 2))) = (128, 128, 128)"
    by (simp only: c round_1023_8)
  from corner_dithered obtain out d' where
    o: "dither_array channels_as_lab bw_ditherer corner_2x2 = Inr (out, d')" "pixel_at out 1 1 = (0, 0, 0)"
    by blast
  have st': "sweep channels_as_lab (sweep_start bw_ditherer corner_2x2)
               (take (1 * width corner_2x2 + 1) (pixel_order (height corner_2x2) (width corner_2x2))) = Inr st"
    by (simp only: tk st)
  from st' c cur rnd bw_lookup_127 bw_lookup_128 o show ?thesis by blast
qed

text \<open>
  Claim C3, amended. In full dithering of an array of three channels, with a
  constructed palette, when the loop reaches the pixel in row \<open>y\<close> and column \<open>x\<close>
  (state \<open>st\<close>, after all pixels before it have been processed and have diffused their
  error), the colour looked up is the current working-buffer value of that pixel with
  the fraction of every channel cut off; it lies between 0 and 255, without further
  clamping, because every write to the buffer is clipped. The lookup succeeds, and the
  colour it returns, stored as \<open>uint8\<close>, is the output pixel at \<open>(x, y)\<close> of the
  finished run.
\<close>

theorem lookup_reads_current_buffer:
  assumes "MinecraftPalette_init rgb_to_lab colors = Inr (palette d)"
    and "depth source = Some 3"
    and "y < height source" and "x < width source"
  shows "\<exists>st idx out d'.
      sweep rgb_to_lab (sweep_start d source)
        (take (y * width source + x) (pixel_order (height source) (width source))) = Inr st
    \<and> current_rgb (image_array st) (int y) (int x)
        = (\<lfloor>cell (image_array st) (int y, int x, 0)\<rfloor>, \<lfloor>cell (image_array st) (int y, int x, 1)\<rfloor>,
           \<lfloor>cell (image_array st) (int y, int x, 2)\<rfloor>)
    \<and> channel_ok (current_rgb (image_array st) (int y) (int x))
    \<and> find_closest_color rgb_to_lab (palette d) (current_rgb (image_array st) (int y) (int x)) ''lab''
        = Inr (idx, colors_rgb (palette d) ! idx, colors ! idx)
    \<and> idx < length (colors_rgb (palette d))
    \<and> dither_array rgb_to_lab d source = Inr (out, d')
    \<and> height out = height source \<and> width out = width source
    \<and> pixel_at out (int y) (int x) = as_uint8 (colors_rgb (palette d) ! idx)"
  using assms by (rule dither_array_pixel)

theorem lookup_reads_current_buffer_witness:
  "MinecraftPalette_init channels_as_lab [''#000000'', ''#FFFFFF''] = Inr (palette bw_ditherer)
   \<and> depth corner_2x2 = Some 3
   \<and> (1 :: nat) < height corner_2x2 \<and> (1 :: nat) < width corner_2x2
   \<and> (\<exists>st out d'.
          sweep channels_as_lab (sweep_start bw_ditherer corner_2x2) [(0, 0), (0, 1), (1, 0)] = Inr st
        \<and> cell (image_array st) (1, 1, 0) = 1023 / 8
        \<and> current_rgb (image_array st) 1 1 = (127, 127, 127)
        \<and> dither_array channels_as_lab bw_ditherer corner_2x2 = Inr (out, d')
        \<and> pixel_at out 1 1 = (0, 0, 0))"
proof -
  have dep: "depth corner_2x2 = Some 3" by (simp add: corner_2x2_def)
  have hw: "(1 :: nat) < height corner_2x2" "(1 :: nat) < width corner_2x2"
    by (simp_all add: corner_2x2_def)
  have tk: "take (1 * width corner_2x2 + 1) (pixel_order (height corner_2x2) (width corner_2x2))
              = [(0, 0), (0, 1), (1, 0)]"
    by (simp add: corner_2x2_def pixel_order_2_2)
  from lookup_reads_current_buffer [OF bw_init dep hw] obtain st idx out d' where
    st: "sweep channels_as_lab (sweep_start bw_ditherer corner_2x2)
           (take (1 * width corner_2x2 + 1) (pixel_order (height corner_2x2) (width corner_2x2))) = Inr st"
    and fl: "current_rgb (image_array st) (int 1) (int 1)
        = (\<lfloor>cell (image_array st) (int 1, int 1, 0)\<rfloor>, \<lfloor>cell (image_array st) (int 1, int 1, 1)\<rfloor>,
           \<lfloor>cell (image_array st) (int 1, int 1, 2)\<rfloor>)"
    and look: "find_closest_color channels_as_lab (palette bw_ditherer)
                 (current_rgb (image_array st) (int 1) (int 1)) ''lab''
               = Inr (idx, colors_rgb (palette bw_ditherer) ! idx, [''#000000'', ''#FFFFFF''] ! idx)"
    and da: "dither_array channels_as_lab bw_ditherer corner_2x2 = Inr (out, d')"
    and px: "pixel_at out (int 1) (int 1) = as_uint8 (colors_rgb (palette bw_ditherer) ! idx)"
    by blast
  from st have st': "sweep channels_as_lab (sweep_start bw_ditherer corner_2x2) [(0, 0), (0, 1), (1, 0)] = Inr st"
    by (simp only: tk)
  from corner_sweep3 obtain st2 where
    st2: "sweep channels_as_lab (sweep_start bw_ditherer corner_2x2) [(0, 0), (0, 1), (1, 0)] = Inr st2"
    and c2: "cell (image_array st2) (1, 1, 0) = 1023 / 8" "cell (image_array st2) (1, 1, 1) = 1023 / 8"
      "cell (image_array st2) (1, 1, 2) = 1023 / 8"
    by blast
  from st' st2 have "st2 = st" by (simp only: sum.inject)
  with c2 have c: "cell (image_array st) (1, 1, 0) = 1023 / 8"
    "cell (image_array st) (1, 1, 1) = 1023 / 8" "cell (image_array st) (1, 1, 2) = 1023 / 8"
    by (simp_all only:)
  have cur: "current_rgb (image_array st) 1 1 = (127, 127, 127)"
    by (simp only: fl [unfolded of_nat_1] c floor_1023_8)
  with look have "idx = 0" by (simp add: bw_lookup_127)
  with px have p: "pixel_at out 1 1 = (0, 0, 0)"
    by (simp add: bw_ditherer_def bw_palette_def as_uint8_def)
  from bw_init dep hw st' c(1) cur da p show ?thesis by blast
qed

subsection \<open>Whole arrays and images\<close>

lemma quantize_sweep_inv:
  assumes "MinecraftPalette_init f colors = Inr p" and dep: "depth src = Some 3"
  shows "\<exists>out'. quantize_sweep f p src out ps = Inr out'
           \<and> height out' = height out \<and> width out' = width out
           \<and> (\<forall>y x. (y, x) \<notin> set ps \<longrightarrow> pixel_at out' y x = pixel_at out y x)
           \<and> (\<forall>y x. (y, x) \<in> set ps \<longrightarrow> pixel_at out' y x \<in> as_uint8 ` set (colors_rgb p))"
proof (induction ps arbitrary: out)
  case Nil
  then show ?case by simp
next
  case (Cons q ps)
  obtain y x where q: "q = (y, x)" by (cases q)
  from find_closest_color_lab_ok [OF assms(1), of "pixel_at src y x"] obtain idx where
    i: "find_closest_color f p (pixel_at src y x) ''lab'' = Inr (idx, colors_rgb p ! idx, colors ! idx)"
       "idx < length (colors_rgb p)" by blast
  let ?out1 = "set_pixel out y x (colors_rgb p ! idx)"
  have q1: "quantize_pixel f p src out q = Inr ?out1"
    using i(1) dep by (simp add: quantize_pixel_def q)
  from Cons.IH [of ?out1] obtain out' where
    o: "quantize_sweep f p src ?out1 ps = Inr out'" "height out' = height ?out1" "width out' = width ?out1"
       "\<forall>y x. (y, x) \<notin> set ps \<longrightarrow> pixel_at out' y x = pixel_at ?out1 y x"
       "\<forall>y x. (y, x) \<in> set ps \<longrightarrow> pixel_at out' y x \<in> as_uint8 ` set (colors_rgb p)"
    by blast
  have run: "quantize_sweep f p src out (q # ps) = Inr out'" using q1 o(1) by simp
  have frame: "\<forall>y' x'. (y', x') \<notin> set (q # ps) \<longrightarrow> pixel_at out' y' x' = pixel_at out y' x'"
    using o(4) by (simp add: q pixel_at_set_pixel_other)
  have inpal: "\<forall>y' x'. (y', x') \<in> set (q # ps) \<longrightarrow> pixel_at out' y' x' \<in> as_uint8 ` set (colors_rgb p)"
  proof (intro allI impI)
    fix y' x' assume m: "(y', x') \<in> set (q # ps)"
    show "pixel_at out' y' x' \<in> as_uint8 ` set (colors_rgb p)"
    proof (cases "(y', x') \<in> set ps")
      case True
      with o(5) show ?thesis by simp
    next
      case False
      with m have e: "y' = y" "x' = x" by (auto simp: q)
      from False o(4) have "pixel_at out' y' x' = pixel_at ?out1 y' x'" by simp
      also have "\<dots> = as_uint8 (colors_rgb p ! idx)" by (simp add: e pixel_at_set_pixel_same)
      finally show ?thesis using i(2) by simp
    qed
  qed
  have shape: "height out' = height out" "width out' = width out" using o(2,3) by simp_all
  from run shape frame inpal show ?case by blast
qed

lemma pixel_order_mem:
  assumes "y < h" "x < w"
  shows "(int y, int x) \<in> set (pixel_order h w)"
proof -
  from pixel_order_index [OF assms] have "y * w + x < length (pixel_order h w)"
    "pixel_order h w ! (y * w + x) = (int y, int x)" by simp_all
  then show ?thesis by (metis nth_mem)
qed

lemma quantize_array_total:
  assumes "MinecraftPalette_init f colors = Inr (palette d)" and "depth source = Some 3"
  shows "\<exists>out. quantize_array f d source = Inr out
           \<and> height out = height source \<and> width out = width source
           \<and> (\<forall>y x. y < height source \<and> x < width source \<longrightarrow>
                 pixel_at out (int y) (int x) \<in> as_uint8 ` set (colors_rgb (palette d)))"
proof -
  from quantize_sweep_inv [OF assms, of "zeros_like source"
         "pixel_order (height source) (width source)"]
  obtain out where
    o: "quantize_array f d source = Inr out"
       "height out = height (zeros_like source)" "width out = width (zeros_like source)"
       "\<forall>y x. (y, x) \<in> set (pixel_order (height source) (width source)) \<longrightarrow>
          pixel_at out y x \<in> as_uint8 ` set (colors_rgb (palette d))"
    by (auto simp: quantize_array_def)
  have "height out = height source" "width out = width source"
    using o(2,3) by (simp_all add: zeros_like_def)
  with o(1,4) show ?thesis by (auto simp: pixel_order_mem)
qed

lemma dither_array_total:
  assumes "MinecraftPalette_init f colors = Inr (palette d)" and dep: "depth source = Some 3"
  shows "\<exists>out d'. dither_array f d source = Inr (out, d')
           \<and> height out = height source \<and> width out = width source
           \<and> palette d' = palette d
           \<and> (\<forall>y x. y < height source \<and> x < width source \<longrightarrow>
                 pixel_at out (int y) (int x) \<in> as_uint8 ` set (colors_rgb (palette d)))"
proof -
  let ?st0 = "sweep_start d source"
  have pal0: "MinecraftPalette_init f colors = Inr (palette (ditherer ?st0))"
    using assms(1) by (simp add: sweep_start_props)
  have dep0: "depth (image_array ?st0) = Some 3"
    using dep by (simp add: sweep_start_props)
  from sweep_inv [OF pal0 sweep_start_props(2) dep0, of "pixel_order (height source) (width source)"]
  obtain st where
    s: "sweep f ?st0 (pixel_order (height source) (width source)) = Inr st"
       "palette (ditherer st) = palette d"
       "height (output_array st) = height source" "width (output_array st) = width source"
       "\<forall>y x. (y, x) \<in> set (pixel_order (height source) (width source)) \<longrightarrow>
          pixel_at (output_array st) y x \<in> as_uint8 ` set (colors_rgb (palette d))"
    by (auto simp: sweep_start_props)
  have da: "dither_array f d source = Inr (output_array st, update_progress (ditherer st))"
    by (simp add: dither_array_def s(1))
  have "palette (update_progress (ditherer st)) = palette d"
    using s(2) by (simp add: update_progress_def)
  with da s(3,4,5) show ?thesis by (auto simp: pixel_order_mem)
qed

text \<open>
  Arrays that do not have three channels: the first pixel raises, so the loops return only
  when there is no pixel.
\<close>

lemma sweep_other_depth:
  assumes "depth (image_array st) \<noteq> Some 3"
  shows "sweep f st (p # ps) = Inl (if depth (image_array st) = None then TypeError else ValueError)"
  using assms by (cases p) (auto simp: dither_pixel_def split: option.splits)

lemma pixel_order_Nil: "pixel_order h w = [] \<longleftrightarrow> h = 0 \<or> w = 0"
proof -
  have "pixel_order h w = [] \<longleftrightarrow> length (pixel_order h w) = 0" by (simp only: length_0_conv)
  then show ?thesis by simp
qed

lemma dither_array_other_depth:
  assumes "depth source \<noteq> Some 3"
  shows "dither_array f d source =
           (if height source = 0 \<or> width source = 0
            then Inr (zeros_like (astype_float64 source),
                      update_progress (d\<lparr>total_pixels := height source * width source,
                                          processed_pixels := 0\<rparr>))
            else Inl (if depth source = None then TypeError else ValueError))"
proof (cases "pixel_order (height source) (width source)")
  case Nil
  then have z: "height source = 0 \<or> width source = 0" by (simp only: pixel_order_Nil)
  have hw: "height (astype_float64 source) * width (astype_float64 source) = height source * width source"
    by (simp add: astype_float64_def)
  from z show ?thesis
    by (simp only: dither_array_def Nil sweep.simps sum.case if_True)
       (simp add: sweep_start_def Let_def hw)
next
  case (Cons p ps)
  then have nz: "\<not> (height source = 0 \<or> width source = 0)"
    using pixel_order_Nil [of "height source" "width source"] by simp
  have dep0: "depth (image_array (sweep_start d source)) \<noteq> Some 3"
    using assms by (simp add: sweep_start_props)
  have "dither_array f d source
          = Inl (if depth (image_array (sweep_start d source)) = None then TypeError else ValueError)"
    by (simp only: dither_array_def Cons sweep_other_depth [OF dep0] sum.case)
  then show ?thesis
    using nz by (simp add: sweep_start_props)
qed

lemma quantize_array_other_depth:
  assumes "depth source \<noteq> Some 3"
  shows "quantize_array f d source =
           (if height source = 0 \<or> width source = 0 then Inr (zeros_like source)
            else Inl (if depth source = None then TypeError else ValueError))"
proof (cases "pixel_order (height source) (width source)")
  case Nil
  then have z: "height source = 0 \<or> width source = 0" by (simp only: pixel_order_Nil)
  then show ?thesis by (simp add: quantize_array_def Nil)
next
  case (Cons p ps)
  then have nz: "\<not> (height source = 0 \<or> width source = 0)"
    using pixel_order_Nil [of "height source" "width source"] by simp
  show ?thesis
    using nz assms
    by (cases p) (auto simp: quantize_array_def Cons quantize_pixel_def split: option.splits)
qed

text \<open>What the loops leave in the output when they return, whatever the array.\<close>

lemma dither_array_returns:
  assumes "MinecraftPalette_init f colors = Inr (palette d)"
    and "dither_array f d source = Inr (out, d')"
  shows "height out = height source \<and> width out = width source
       \<and> (\<forall>y x. y < height source \<and> x < width source \<longrightarrow>
             pixel_at out (int y) (int x) \<in> as_uint8 ` set (colors_rgb (palette d)))"
proof (cases "depth source = Some 3")
  case True
  from dither_array_total [OF assms(1) True] assms(2) show ?thesis by auto
next
  case False
  from assms(2) dither_array_other_depth [OF False, of f d]
  have z: "height source = 0 \<or> width source = 0" and o: "out = zeros_like (astype_float64 source)"
    by (auto split: if_splits)
  from z o show ?thesis by (auto simp: zeros_like_def astype_float64_def)
qed

lemma quantize_array_returns:
  assumes "MinecraftPalette_init f colors = Inr (palette d)"
    and "quantize_array f d source = Inr out"
  shows "height out = height source \<and> width out = width source
       \<and> (\<forall>y x. y < height source \<and> x < width source \<longrightarrow>
             pixel_at out (int y) (int x) \<in> as_uint8 ` set (colors_rgb (palette d)))"
proof (cases "depth source = Some 3")
  case True
  from quantize_array_total [OF assms(1) True] assms(2) show ?thesis by auto
next
  case False
  from assms(2) quantize_array_other_depth [OF False, of f d]
  have z: "height source = 0 \<or> width source = 0" and o: "out = zeros_like source"
    by (auto split: if_splits)
  from z o show ?thesis by (auto simp: zeros_like_def)
qed

lemma as_uint8_palette:
  assumes "list_all channel_ok cs"
  shows "as_uint8 ` set cs = set cs"
proof -
  have "as_uint8 c = c" if "c \<in> set cs" for c
    using assms that by (simp add: list_all_iff as_uint8_channel_ok)
  then show ?thesis by force
qed

lemma paste_pixels_shape [simp]:
  "size_wh (paste_pixels dst src pos) = size_wh dst" "mode (paste_pixels dst src pos) = mode dst"
  by (auto simp: paste_pixels_def split: prod.splits)

lemma resize_for_minecraft_Some:
  "resize_for_minecraft pil h (Some r) ms =
     Inr (h @ [thumbnail_of pil (h ! r) (case ms of None \<Rightarrow> MINECRAFT_MAP_SIZE | Some s \<Rightarrow> s),
               resized_image pil (h ! r) (case ms of None \<Rightarrow> MINECRAFT_MAP_SIZE | Some s \<Rightarrow> s)],
          Suc (length h))"
  by (simp add: resize_for_minecraft_def Image_copy_def Image_thumbnail_def Image_new_def
        Image_paste_def resized_image_def Let_def nth_append)

lemma resized_image_shape [simp]:
  "size_wh (resized_image pil im sz) = sz" "mode (resized_image pil im sz) = ''RGB''"
  by (simp_all add: resized_image_def Let_def)

lemma image_pixel_fromarray [simp]: "image_pixel (fromarray a) x y = pixel_at a y x"
  by (simp add: image_pixel_def fromarray_def pixel_at_def)

lemma fromarray_shape [simp]:
  "size_wh (fromarray a) = (width a, height a)" "mode (fromarray a) = ''RGB''"
  by (simp_all add: fromarray_def)

lemma image_to_array_shape [simp]:
  "height (image_to_array im) = snd (size_wh im)" "width (image_to_array im) = fst (size_wh im)"
  by (simp_all add: image_to_array_def)

lemma image_to_array_depth:
  "depth (image_to_array im) = (if bands_of (mode im) = 1 then None else Some (bands_of (mode im)))"
  by (simp add: image_to_array_def)

lemma image_to_array_depth3: "depth (image_to_array im) = Some 3 \<longleftrightarrow> bands_of (mode im) = 3"
  by (simp add: image_to_array_depth)

lemma bands_of_RGB [simp]: "bands_of ''RGB'' = 3"
  by (simp add: bands_of_def)

lemma dither_image_Some:
  "dither_image f pil h d (Some r) resize =
     (case dither_array f d (image_to_array
              (if resize then resized_image pil (h ! r) MINECRAFT_MAP_SIZE else h ! r)) of
        Inl e \<Rightarrow> Inl e
      | Inr (out, d') \<Rightarrow>
          Inr ((if resize
                then h @ [thumbnail_of pil (h ! r) MINECRAFT_MAP_SIZE,
                          resized_image pil (h ! r) MINECRAFT_MAP_SIZE]
                else h) @ [fromarray out],
               (if resize then length h + 2 else length h), d'))"
  by (simp add: dither_image_def resize_for_minecraft_Some array_to_image_def nth_append
        split: sum.splits prod.splits)

lemma dither_image_None:
  "dither_image f pil h d None resize = Inl (if resize then AttributeError else ValueError)"
  by (simp add: dither_image_def resize_for_minecraft_def)

lemma dither_with_comparison_Some:
  assumes "quantize_array f d (image_to_array src) = Inr outq"
    and "dither_array f d (image_to_array src) = Inr (outd, d')"
    and "src = (if resize then resized_image pil (h ! r) MINECRAFT_MAP_SIZE else h ! r)"
    and "h1 = (if resize then h @ [thumbnail_of pil (h ! r) MINECRAFT_MAP_SIZE, src] else h @ [src])"
  shows "dither_with_comparison f pil h d (Some r) resize =
           Inr (h1 @ [fromarray outq, fromarray outd],
                (length h1 - 1, length h1, Suc (length h1)), d')"
proof (cases resize)
  case True
  with assms(3,4) have h1: "h1 = h @ [thumbnail_of pil (h ! r) MINECRAFT_MAP_SIZE, src]"
    and src: "src = resized_image pil (h ! r) MINECRAFT_MAP_SIZE" by simp_all
  have o: "(h1 @ [fromarray outq]) ! Suc (length h) = src" "h1 ! Suc (length h) = src"
    by (simp_all add: h1 nth_append)
  show ?thesis
    using True assms(1,2) o
    by (simp add: dither_with_comparison_def resize_for_minecraft_Some create_quantized_image_def
          array_to_image_def dither_image_Some h1 [symmetric] src [symmetric])
       (simp add: h1)
next
  case False
  with assms(3,4) have h1: "h1 = h @ [src]" and src: "src = h ! r" by simp_all
  have o: "(h1 @ [fromarray outq]) ! length h = src" "h1 ! length h = src"
    by (simp_all add: h1 nth_append)
  show ?thesis
    using False assms(1,2) o
    by (simp add: dither_with_comparison_def Image_copy_def create_quantized_image_def
          array_to_image_def dither_image_Some src [symmetric] h1 [symmetric])
       (simp add: h1)
qed

lemma dither_pixel_rel:
  assumes "image_array s1 = image_array s2" "output_array s1 = output_array s2"
    and "palette (ditherer s1) = palette (ditherer s2)"
  shows "(\<exists>e. dither_pixel f s1 p = Inl e \<and> dither_pixel f s2 p = Inl e)
       \<or> (\<exists>t1 t2. dither_pixel f s1 p = Inr t1 \<and> dither_pixel f s2 p = Inr t2
             \<and> image_array t1 = image_array t2 \<and> output_array t1 = output_array t2
             \<and> palette (ditherer t1) = palette (ditherer t2))"
  using assms
  by (cases p)
     (auto simp: dither_pixel_def ditherer_find_closest_color_def Let_def update_progress_def
        split: sum.splits prod.splits option.splits)

lemma sweep_rel:
  assumes "image_array s1 = image_array s2" "output_array s1 = output_array s2"
    and "palette (ditherer s1) = palette (ditherer s2)"
  shows "(\<exists>e. sweep f s1 ps = Inl e \<and> sweep f s2 ps = Inl e)
       \<or> (\<exists>t1 t2. sweep f s1 ps = Inr t1 \<and> sweep f s2 ps = Inr t2
             \<and> output_array t1 = output_array t2)"
  using assms
proof (induction ps arbitrary: s1 s2)
  case Nil
  then show ?case by simp
next
  case (Cons p ps)
  from dither_pixel_rel [OF Cons.prems, of f p] show ?case
  proof
    assume "\<exists>e. dither_pixel f s1 p = Inl e \<and> dither_pixel f s2 p = Inl e"
    then show ?thesis by auto
  next
    assume "\<exists>t1 t2. dither_pixel f s1 p = Inr t1 \<and> dither_pixel f s2 p = Inr t2
             \<and> image_array t1 = image_array t2 \<and> output_array t1 = output_array t2
             \<and> palette (ditherer t1) = palette (ditherer t2)"
    then obtain t1 t2 where t: "dither_pixel f s1 p = Inr t1" "dither_pixel f s2 p = Inr t2"
      "image_array t1 = image_array t2" "output_array t1 = output_array t2"
      "palette (ditherer t1) = palette (ditherer t2)" by blast
    from Cons.IH [OF t(3,4,5)] show ?thesis by (simp add: t(1,2))
  qed
qed

lemma dither_array_rel:
  assumes "palette d1 = palette d2"
  shows "(\<exists>e. dither_array f d1 src = Inl e \<and> dither_array f d2 src = Inl e)
       \<or> (\<exists>out e1 e2. dither_array f d1 src = Inr (out, e1) \<and> dither_array f d2 src = Inr (out, e2))"
proof -
  have "image_array (sweep_start d1 src) = image_array (sweep_start d2 src)"
    "output_array (sweep_start d1 src) = output_array (sweep_start d2 src)"
    "palette (ditherer (sweep_start d1 src)) = palette (ditherer (sweep_start d2 src))"
    using assms by (simp_all add: sweep_start_def Let_def)
  from sweep_rel [OF this, of f "pixel_order (height src) (width src)"]
  show ?thesis by (auto simp: dither_array_def)
qed


lemma dither_image_returns:
  assumes "dither_image f pil h d (Some r) resize = Inr (h', res, d')"
  shows "\<exists>out. dither_array f d (image_to_array
                   (if resize then resized_image pil (h ! r) MINECRAFT_MAP_SIZE else h ! r)) = Inr (out, d')
           \<and> h' = (if resize
                   then h @ [thumbnail_of pil (h ! r) MINECRAFT_MAP_SIZE,
                             resized_image pil (h ! r) MINECRAFT_MAP_SIZE]
                   else h) @ [fromarray out]
           \<and> res = (if resize then length h + 2 else length h)
           \<and> h' ! res = fromarray out"
  using assms by (auto simp: dither_image_Some nth_append split: sum.splits)

lemma dither_with_comparison_returns:
  assumes "dither_with_comparison f pil h d (Some r) resize = Inr (h', (orig, quant, dith), d')"
    and "src = (if resize then resized_image pil (h ! r) MINECRAFT_MAP_SIZE else h ! r)"
  shows "\<exists>outq outd. quantize_array f d (image_to_array src) = Inr outq
           \<and> dither_array f d (image_to_array src) = Inr (outd, d')
           \<and> h' ! quant = fromarray outq \<and> h' ! dith = fromarray outd"
proof -
  let ?h1 = "if resize then h @ [thumbnail_of pil (h ! r) MINECRAFT_MAP_SIZE, src] else h @ [src]"
  have o: "?h1 ! (length ?h1 - 1) = src" by (simp add: nth_append)
  obtain outq where q: "quantize_array f d (image_to_array src) = Inr outq"
  proof (cases "quantize_array f d (image_to_array src)")
    case (Inl e)
    have "dither_with_comparison f pil h d (Some r) resize = Inl e"
      using Inl assms(2) o
      by (cases resize)
         (simp_all add: dither_with_comparison_def resize_for_minecraft_Some Image_copy_def
            create_quantized_image_def nth_append)
    with assms(1) show ?thesis by simp
  next
    case (Inr outq)
    then show ?thesis by (rule that)
  qed
  let ?h2 = "?h1 @ [fromarray outq]"
  have o2: "?h2 ! (length ?h1 - 1) = src" by (simp add: nth_append)
  obtain outd e' where dd: "dither_array f d (image_to_array src) = Inr (outd, e')"
  proof (cases "dither_array f d (image_to_array src)")
    case (Inl e)
    have "dither_with_comparison f pil h d (Some r) resize = Inl e"
      using Inl q assms(2) o o2
      by (cases resize)
         (simp_all add: dither_with_comparison_def resize_for_minecraft_Some Image_copy_def
            create_quantized_image_def array_to_image_def dither_image_Some nth_append)
    with assms(1) show ?thesis by simp
  next
    case (Inr pr)
    then show ?thesis by (cases pr) (auto intro: that)
  qed
  from dither_with_comparison_Some [OF q dd assms(2) refl] assms(1)
  have e: "h' = ?h1 @ [fromarray outq, fromarray outd]" "quant = length ?h1" "dith = Suc (length ?h1)"
    "d' = e'"
    by simp_all
  have "h' ! quant = fromarray outq" "h' ! dith = fromarray outd"
    by (simp_all add: e nth_append)
  with q dd e(4) show ?thesis by blast
qed

subsection \<open>Results of whole runs\<close>

lemma dither_image_total:
  assumes "MinecraftPalette_init f colors = Inr (palette d)"
    and "resize \<or> bands_of (mode (h ! r)) = 3"
  shows "\<exists>h' res d'. dither_image f pil h d (Some r) resize = Inr (h', res, d')"
proof -
  let ?src = "if resize then resized_image pil (h ! r) MINECRAFT_MAP_SIZE else h ! r"
  have dep: "depth (image_to_array ?src) = Some 3"
    using assms(2) by (auto simp: image_to_array_depth3)
  from dither_array_total [OF assms(1) dep] obtain out d' where
    "dither_array f d (image_to_array ?src) = Inr (out, d')" by blast
  then show ?thesis by (simp add: dither_image_Some)
qed

lemma dither_with_comparison_total:
  assumes "MinecraftPalette_init f colors = Inr (palette d)"
    and "resize \<or> bands_of (mode (h ! r)) = 3"
  shows "\<exists>h' original quantized dithered d'.
           dither_with_comparison f pil h d (Some r) resize
             = Inr (h', (original, quantized, dithered), d')"
proof -
  let ?src = "if resize then resized_image pil (h ! r) MINECRAFT_MAP_SIZE else h ! r"
  have dep: "depth (image_to_array ?src) = Some 3"
    using assms(2) by (auto simp: image_to_array_depth3)
  from dither_array_total [OF assms(1) dep] obtain outd d' where
    d: "dither_array f d (image_to_array ?src) = Inr (outd, d')" by blast
  from quantize_array_total [OF assms(1) dep] obtain outq where
    q: "quantize_array f d (image_to_array ?src) = Inr outq" by blast
  from dither_with_comparison_Some [OF q d refl refl] show ?thesis by blast
qed

lemma fromarray_pixels:
  assumes "height out = height source \<and> width out = width source
       \<and> (\<forall>y x. y < height source \<and> x < width source \<longrightarrow>
             pixel_at out (int y) (int x) \<in> as_uint8 ` set cs)"
    and "list_all channel_ok cs"
  shows "\<forall>x y. x < fst (size_wh (fromarray out)) \<and> y < snd (size_wh (fromarray out)) \<longrightarrow>
           image_pixel (fromarray out) (int x) (int y) \<in> set cs"
  using assms(1) as_uint8_palette [OF assms(2)] by simp

lemma minus_init:
  "MinecraftPalette_init channels_as_lab [''#-1-1-1''] = Inr (palette minus_ditherer)"
  by (simp add: MinecraftPalette_init_def hex_to_rgb_def lstrip_hash_def hex_digit_def is_blank_def
        minus_ditherer_def channels_as_lab_def)

text \<open>
  Claim C9 as stated does not hold for every non-empty palette. The constructor accepts
  the colour \<open>#-1-1-1\<close>, because \<open>int('-1', 16)\<close> is -1, and the palette's only
  RGB colour is then \<open>(-1, -1, -1)\<close>. Stored in the \<open>uint8\<close> output array it becomes
  \<open>(255, 255, 255)\<close>: the pixel of the dithered image, and that of the quantize-only
  image, is not a colour of the palette.
\<close>

theorem negative_channel_leaves_palette:
  "MinecraftPalette_init channels_as_lab [''#-1-1-1''] = Inr (palette minus_ditherer)
   \<and> colors_rgb (palette minus_ditherer) = [(- 1, - 1, - 1)]
   \<and> (\<exists>h' res d'. dither_image channels_as_lab plain_pil [gray_image] minus_ditherer (Some 0) False
                     = Inr (h', res, d')
          \<and> size_wh (h' ! res) = (1, 1)
          \<and> image_pixel (h' ! res) 0 0 = (255, 255, 255)
          \<and> image_pixel (h' ! res) 0 0 \<notin> set (colors_rgb (palette minus_ditherer)))
   \<and> (\<exists>h' original quantized dithered d'.
          dither_with_comparison channels_as_lab plain_pil [gray_image] minus_ditherer (Some 0) False
            = Inr (h', (original, quantized, dithered), d')
          \<and> size_wh (h' ! quantized) = (1, 1)
          \<and> image_pixel (h' ! quantized) 0 0 = (255, 255, 255)
          \<and> image_pixel (h' ! quantized) 0 0 \<notin> set (colors_rgb (palette minus_ditherer)))"
proof -
  let ?src = "image_to_array gray_image"
  have cs: "colors_rgb (palette minus_ditherer) = [(- 1, - 1, - 1)]"
    by (simp add: minus_ditherer_def)
  have dep: "depth ?src = Some 3" by (simp add: image_to_array_depth gray_image_def)
  have hw: "snd (size_wh gray_image) = 1" "fst (size_wh gray_image) = 1"
    by (simp_all add: gray_image_def)
  have u: "as_uint8 ` set (colors_rgb (palette minus_ditherer)) = {(255, 255, 255)}"
    by (simp add: cs as_uint8_def)
  from dither_array_total [OF minus_init dep] obtain outd d' where
    d: "dither_array channels_as_lab minus_ditherer ?src = Inr (outd, d')"
       "height outd = height ?src" "width outd = width ?src"
       "\<forall>y x. y < height ?src \<and> x < width ?src \<longrightarrow>
          pixel_at outd (int y) (int x) \<in> as_uint8 ` set (colors_rgb (palette minus_ditherer))"
    by blast
  from d(4) [rule_format, of 0 0] have pd: "pixel_at outd 0 0 = (255, 255, 255)"
    by (simp add: hw u)
  from quantize_array_total [OF minus_init dep] obtain outq where
    q: "quantize_array channels_as_lab minus_ditherer ?src = Inr outq"
       "height outq = height ?src" "width outq = width ?src"
       "\<forall>y x. y < height ?src \<and> x < width ?src \<longrightarrow>
          pixel_at outq (int y) (int x) \<in> as_uint8 ` set (colors_rgb (palette minus_ditherer))"
    by blast
  from q(4) [rule_format, of 0 0] have pq: "pixel_at outq 0 0 = (255, 255, 255)"
    by (simp add: hw u)
  have run: "dither_image channels_as_lab plain_pil [gray_image] minus_ditherer (Some 0) False
               = Inr ([gray_image, fromarray outd], 1, d')"
    by (simp add: dither_image_Some d(1))
  have one: "\<exists>h' res d'. dither_image channels_as_lab plain_pil [gray_image] minus_ditherer (Some 0) False
                     = Inr (h', res, d')
          \<and> size_wh (h' ! res) = (1, 1)
          \<and> image_pixel (h' ! res) 0 0 = (255, 255, 255)
          \<and> image_pixel (h' ! res) 0 0 \<notin> set (colors_rgb (palette minus_ditherer))"
  proof -
    have "size_wh ([gray_image, fromarray outd] ! 1) = (1, 1)"
      "image_pixel ([gray_image, fromarray outd] ! 1) 0 0 = (255, 255, 255)"
      "image_pixel ([gray_image, fromarray outd] ! 1) 0 0 \<notin> set (colors_rgb (palette minus_ditherer))"
      using d(2,3) pd by (simp_all add: hw cs)
    with run show ?thesis by blast
  qed
  have cmp: "dither_with_comparison channels_as_lab plain_pil [gray_image] minus_ditherer (Some 0) False
               = Inr ([gray_image, gray_image, fromarray outq, fromarray outd], (1, 2, 3), d')"
    using dither_with_comparison_Some [of channels_as_lab minus_ditherer gray_image outq outd d'
            False plain_pil "[gray_image]" 0 "[gray_image, gray_image]"] q(1) d(1)
    by simp
  have two: "\<exists>h' original quantized dithered d'.
          dither_with_comparison channels_as_lab plain_pil [gray_image] minus_ditherer (Some 0) False
            = Inr (h', (original, quantized, dithered), d')
          \<and> size_wh (h' ! quantized) = (1, 1)
          \<and> image_pixel (h' ! quantized) 0 0 = (255, 255, 255)
          \<and> image_pixel (h' ! quantized) 0 0 \<notin> set (colors_rgb (palette minus_ditherer))"
  proof -
    have "size_wh ([gray_image, gray_image, fromarray outq, fromarray outd] ! 2) = (1, 1)"
      "image_pixel ([gray_image, gray_image, fromarray outq, fromarray outd] ! 2) 0 0 = (255, 255, 255)"
      "image_pixel ([gray_image, gray_image, fromarray outq, fromarray outd] ! 2) 0 0
         \<notin> set (colors_rgb (palette minus_ditherer))"
      using q(2,3) pq by (simp_all add: hw cs)
    with cmp show ?thesis by blast
  qed
  from minus_init cs one two show ?thesis by blast
qed

text \<open>
  Claim C9, amended. With a constructed palette whose RGB colours all have their
  channels between 0 and 255, whenever \<open>dither_image\<close> returns an image, every pixel of
  it is one of the palette's RGB colours, and whenever the comparison product returns its
  three images, every pixel of the quantize-only image and of the dithered image is one
  of the palette's RGB colours. Both calls return when the image is resized first or has
  three bands.
\<close>

theorem output_pixels_in_palette:
  assumes "MinecraftPalette_init rgb_to_lab colors = Inr (palette d)"
    and "list_all channel_ok (colors_rgb (palette d))"
  shows "(\<forall>h' res d'. dither_image rgb_to_lab pil h d (Some r) resize = Inr (h', res, d') \<longrightarrow>
            (\<forall>x y. x < fst (size_wh (h' ! res)) \<and> y < snd (size_wh (h' ! res)) \<longrightarrow>
                  image_pixel (h' ! res) (int x) (int y) \<in> set (colors_rgb (palette d))))
       \<and> (\<forall>h' original quantized dithered d'.
            dither_with_comparison rgb_to_lab pil h d (Some r) resize
              = Inr (h', (original, quantized, dithered), d') \<longrightarrow>
            (\<forall>x y. x < fst (size_wh (h' ! quantized)) \<and> y < snd (size_wh (h' ! quantized)) \<longrightarrow>
                  image_pixel (h' ! quantized) (int x) (int y) \<in> set (colors_rgb (palette d)))
            \<and> (\<forall>x y. x < fst (size_wh (h' ! dithered)) \<and> y < snd (size_wh (h' ! dithered)) \<longrightarrow>
                  image_pixel (h' ! dithered) (int x) (int y) \<in> set (colors_rgb (palette d))))
       \<and> (resize \<or> bands_of (mode (h ! r)) = 3 \<longrightarrow>
            (\<exists>h' res d'. dither_image rgb_to_lab pil h d (Some r) resize = Inr (h', res, d'))
            \<and> (\<exists>h' original quantized dithered d'.
                  dither_with_comparison rgb_to_lab pil h d (Some r) resize
                    = Inr (h', (original, quantized, dithered), d')))"
proof -
  let ?src = "if resize then resized_image pil (h ! r) MINECRAFT_MAP_SIZE else h ! r"
  have one: "\<forall>x y. x < fst (size_wh (h' ! res)) \<and> y < snd (size_wh (h' ! res)) \<longrightarrow>
                  image_pixel (h' ! res) (int x) (int y) \<in> set (colors_rgb (palette d))"
    if run: "dither_image rgb_to_lab pil h d (Some r) resize = Inr (h', res, d')" for h' res d'
  proof -
    from dither_image_returns [OF run] obtain out where
      o: "dither_array rgb_to_lab d (image_to_array ?src) = Inr (out, d')" "h' ! res = fromarray out"
      by blast
    from fromarray_pixels [OF dither_array_returns [OF assms(1) o(1)] assms(2)]
    show ?thesis by (simp only: o(2))
  qed
  have two: "(\<forall>x y. x < fst (size_wh (h' ! quantized)) \<and> y < snd (size_wh (h' ! quantized)) \<longrightarrow>
                  image_pixel (h' ! quantized) (int x) (int y) \<in> set (colors_rgb (palette d)))
            \<and> (\<forall>x y. x < fst (size_wh (h' ! dithered)) \<and> y < snd (size_wh (h' ! dithered)) \<longrightarrow>
                  image_pixel (h' ! dithered) (int x) (int y) \<in> set (colors_rgb (palette d)))"
    if run: "dither_with_comparison rgb_to_lab pil h d (Some r) resize
               = Inr (h', (original, quantized, dithered), d')"
    for h' original quantized dithered d'
  proof -
    from dither_with_comparison_returns [OF run refl] obtain outq outd where
      o: "quantize_array rgb_to_lab d (image_to_array ?src) = Inr outq"
         "dither_array rgb_to_lab d (image_to_array ?src) = Inr (outd, d')"
         "h' ! quantized = fromarray outq" "h' ! dithered = fromarray outd"
      by blast
    from fromarray_pixels [OF quantize_array_returns [OF assms(1) o(1)] assms(2)]
         fromarray_pixels [OF dither_array_returns [OF assms(1) o(2)] assms(2)]
    show ?thesis unfolding o(3,4) by blast
  qed
  have three: "(\<exists>h' res d'. dither_image rgb_to_lab pil h d (Some r) resize = Inr (h', res, d'))
            \<and> (\<exists>h' original quantized dithered d'.
                  dither_with_comparison rgb_to_lab pil h d (Some r) resize
                    = Inr (h', (original, quantized, dithered), d'))"
    if "resize \<or> bands_of (mode (h ! r)) = 3"
    using dither_image_total [OF assms(1) that] dither_with_comparison_total [OF assms(1) that]
    by blast
  from one two three show ?thesis by blast
qed

theorem output_pixels_in_palette_witness:
  "MinecraftPalette_init channels_as_lab [''#000000'', ''#FFFFFF''] = Inr (palette bw_ditherer)
   \<and> list_all channel_ok (colors_rgb (palette bw_ditherer))
   \<and> bands_of (mode ([gray_image] ! 0)) = 3
   \<and> (\<exists>h' res d'. dither_image channels_as_lab plain_pil [gray_image] bw_ditherer (Some 0) False
                     = Inr (h', res, d')
          \<and> size_wh (h' ! res) = (1, 1)
          \<and> image_pixel (h' ! res) 0 0 \<in> set (colors_rgb (palette bw_ditherer)))"
proof -
  have ok: "list_all channel_ok (colors_rgb (palette bw_ditherer))"
    by (simp add: bw_ditherer_def bw_palette_def channel_ok_def)
  have b: "bands_of (mode ([gray_image] ! 0)) = 3" by (simp add: gray_image_def)
  note t = output_pixels_in_palette [OF bw_init ok, of plain_pil "[gray_image]" 0 False]
  from t b obtain h' res d' where
    r: "dither_image channels_as_lab plain_pil [gray_image] bw_ditherer (Some 0) False = Inr (h', res, d')"
    by blast
  from t r have px: "\<forall>x y. x < fst (size_wh (h' ! res)) \<and> y < snd (size_wh (h' ! res)) \<longrightarrow>
               image_pixel (h' ! res) (int x) (int y) \<in> set (colors_rgb (palette bw_ditherer))"
    by blast
  from dither_image_returns [OF r] obtain out where
    o: "dither_array channels_as_lab bw_ditherer (image_to_array gray_image) = Inr (out, d')"
       "h' ! res = fromarray out"
    by auto
  from dither_array_returns [OF bw_init o(1)] have "height out = 1" "width out = 1"
    by (simp_all add: gray_image_def)
  then have sz: "size_wh (h' ! res) = (1, 1)" by (simp add: o(2))
  from px [rule_format, of 0 0] sz have "image_pixel (h' ! res) 0 0 \<in> set (colors_rgb (palette bw_ditherer))"
    by simp
  with bw_init ok b r sz show ?thesis by blast
qed

text \<open>
  Claim C10. \<open>dither_image\<close> leaves the caller's image, and every other image that
  existed before the call, as it was: with or without the resize, whenever the call
  returns, the image at the caller's reference is unchanged and the result is a new
  image. With a constructed palette the call returns when the image is resized first or
  has three bands.
\<close>

theorem input_image_unchanged:
  assumes "r < length h"
  shows "(\<forall>h' res d'. dither_image rgb_to_lab pil h d (Some r) resize = Inr (h', res, d') \<longrightarrow>
            h' ! r = h ! r \<and> (\<forall>q<length h. h' ! q = h ! q)
            \<and> length h \<le> res \<and> res < length h')
       \<and> (MinecraftPalette_init rgb_to_lab colors = Inr (palette d)
            \<and> (resize \<or> bands_of (mode (h ! r)) = 3) \<longrightarrow>
            (\<exists>h' res d'. dither_image rgb_to_lab pil h d (Some r) resize = Inr (h', res, d')))"
proof -
  have frame: "h' ! r = h ! r \<and> (\<forall>q<length h. h' ! q = h ! q) \<and> length h \<le> res \<and> res < length h'"
    if run: "dither_image rgb_to_lab pil h d (Some r) resize = Inr (h', res, d')" for h' res d'
  proof -
    from dither_image_returns [OF run] obtain out where
      o: "h' = (if resize
                then h @ [thumbnail_of pil (h ! r) MINECRAFT_MAP_SIZE,
                          resized_image pil (h ! r) MINECRAFT_MAP_SIZE]
                else h) @ [fromarray out]"
         "res = (if resize then length h + 2 else length h)"
      by blast
    show ?thesis using assms by (cases resize) (simp_all add: o nth_append)
  qed
  have total: "\<exists>h' res d'. dither_image rgb_to_lab pil h d (Some r) resize = Inr (h', res, d')"
    if "MinecraftPalette_init rgb_to_lab colors = Inr (palette d)
          \<and> (resize \<or> bands_of (mode (h ! r)) = 3)"
    using dither_image_total [of rgb_to_lab colors d resize h r pil] that by blast
  from frame total show ?thesis by blast
qed

theorem input_image_unchanged_witness:
  "(0 :: nat) < length [gray_image]
   \<and> MinecraftPalette_init channels_as_lab [''#000000'', ''#FFFFFF''] = Inr (palette bw_ditherer)
   \<and> (\<exists>h' res d'. dither_image channels_as_lab plain_pil [gray_image] bw_ditherer (Some 0) True
                     = Inr (h', res, d')
          \<and> h' ! 0 = gray_image \<and> 1 \<le> res \<and> res < length h')"
proof -
  have l: "(0 :: nat) < length [gray_image]" by simp
  note t = input_image_unchanged [OF l, of channels_as_lab plain_pil bw_ditherer True
             "[''#000000'', ''#FFFFFF'']"]
  from t bw_init obtain h' res d' where
    r: "dither_image channels_as_lab plain_pil [gray_image] bw_ditherer (Some 0) True = Inr (h', res, d')"
    by blast
  from t r have "h' ! 0 = [gray_image] ! 0 \<and> length [gray_image] \<le> res \<and> res < length h'"
    by blast
  then have "h' ! 0 = gray_image \<and> 1 \<le> res \<and> res < length h'" by simp
  with l bw_init r show ?thesis by blast
qed

text \<open>
  Claim C8. Two runs of \<open>dither_image\<close> on the same source image, with the same
  palette and the same options, end the same way: both raise the same exception or both
  return, and then the output images are equal. The runs may start from different heaps
  and from ditherers that differ in their progress counters and observers, as a second
  run on the same object does.
\<close>

theorem dither_image_deterministic:
  assumes "palette d1 = palette d2" and "h1 ! r1 = h2 ! r2"
  shows "case dither_image rgb_to_lab pil h1 d1 (Some r1) resize of
           Inl e \<Rightarrow> dither_image rgb_to_lab pil h2 d2 (Some r2) resize = Inl e
         | Inr (h1', res1, d1') \<Rightarrow>
             (\<exists>h2' res2 d2'. dither_image rgb_to_lab pil h2 d2 (Some r2) resize = Inr (h2', res2, d2')
                 \<and> h2' ! res2 = h1' ! res1)"
proof -
  let ?src = "image_to_array (if resize then resized_image pil (h1 ! r1) MINECRAFT_MAP_SIZE else h1 ! r1)"
  from dither_array_rel [OF assms(1), of rgb_to_lab ?src] show ?thesis
  proof
    assume "\<exists>e. dither_array rgb_to_lab d1 ?src = Inl e \<and> dither_array rgb_to_lab d2 ?src = Inl e"
    then show ?thesis using assms(2) by (auto simp: dither_image_Some)
  next
    assume "\<exists>out e1 e2. dither_array rgb_to_lab d1 ?src = Inr (out, e1)
               \<and> dither_array rgb_to_lab d2 ?src = Inr (out, e2)"
    then show ?thesis using assms(2) by (cases resize) (auto simp: dither_image_Some nth_append)
  qed
qed

theorem dither_image_deterministic_witness:
  "palette (bw_ditherer\<lparr>processed_pixels := 7\<rparr>) = palette bw_ditherer
   \<and> [hsv_image, gray_image] ! 1 = [gray_image] ! 0
   \<and> (case dither_image channels_as_lab plain_pil [hsv_image, gray_image]
             (bw_ditherer\<lparr>processed_pixels := 7\<rparr>) (Some 1) True of
         Inl e \<Rightarrow> dither_image channels_as_lab plain_pil [gray_image] bw_ditherer (Some 0) True = Inl e
       | Inr (h1', res1, d1') \<Rightarrow>
           (\<exists>h2' res2 d2'. dither_image channels_as_lab plain_pil [gray_image] bw_ditherer (Some 0) True
                             = Inr (h2', res2, d2')
               \<and> h2' ! res2 = h1' ! res1))"
  using dither_image_deterministic [of "bw_ditherer\<lparr>processed_pixels := 7\<rparr>" bw_ditherer
          "[hsv_image, gray_image]" 1 "[gray_image]" 0 channels_as_lab plain_pil True]
  by simp

subsection \<open>Invalid images\<close>

lemma bw_lookup_100:
  "find_closest_color channels_as_lab (palette bw_ditherer) (100, 100, 100) ''lab''
     = Inr (0, (0, 0, 0), ''#000000'')"
  by (simp add: bw_lookup_defs)

text \<open>
  Claim C6, as stated, fails: \<open>dither_image\<close> does not validate its input. A
  one-pixel image in mode HSV, which \<open>validate_image_for_processing\<close> rejects as an
  unsupported mode, is dithered without the resize like any three-band image, and a
  complete output image is returned. An RGB image of width and height zero, which the
  validation rejects for its dimensions, is not rejected either: the loop has nothing to
  do and an image of size zero is returned.
\<close>

theorem invalid_images_are_dithered:
  "validate_image_for_processing (Some hsv_image) = (False, ''Unsupported image mode: HSV'')
   \<and> (\<exists>h' res d'. dither_image channels_as_lab plain_pil [hsv_image] bw_ditherer (Some 0) False
                     = Inr (h', res, d')
          \<and> size_wh (h' ! res) = (1, 1) \<and> image_pixel (h' ! res) 0 0 = (0, 0, 0))
   \<and> validate_image_for_processing (Some empty_image) = (False, ''Image has zero dimensions'')
   \<and> (\<exists>h' res d'. dither_image channels_as_lab plain_pil [empty_image] bw_ditherer (Some 0) False
                     = Inr (h', res, d')
          \<and> size_wh (h' ! res) = (0, 0))"
proof -
  have v: "validate_image_for_processing (Some hsv_image) = (False, ''Unsupported image mode: HSV'')"
    by (simp add: validate_image_for_processing_def hsv_image_def)
  have v0: "validate_image_for_processing (Some empty_image) = (False, ''Image has zero dimensions'')"
    by (simp add: validate_image_for_processing_def empty_image_def)
  let ?src = "image_to_array hsv_image"
  have dep: "depth ?src = Some 3" by (simp add: image_to_array_depth hsv_image_def bands_of_def)
  have hw: "(0 :: nat) < height ?src" "(0 :: nat) < width ?src" by (simp_all add: hsv_image_def)
  from dither_array_pixel [OF bw_init dep hw] obtain st idx out d' where
    st: "sweep channels_as_lab (sweep_start bw_ditherer ?src)
           (take (0 * width ?src + 0) (pixel_order (height ?src) (width ?src))) = Inr st"
    and look: "find_closest_color channels_as_lab (palette bw_ditherer)
                 (current_rgb (image_array st) (int 0) (int 0)) ''lab''
               = Inr (idx, colors_rgb (palette bw_ditherer) ! idx, [''#000000'', ''#FFFFFF''] ! idx)"
    and da: "dither_array channels_as_lab bw_ditherer ?src = Inr (out, d')"
    and shp: "height out = height ?src" "width out = width ?src"
    and px: "pixel_at out (int 0) (int 0) = as_uint8 (colors_rgb (palette bw_ditherer) ! idx)"
    by blast
  from st have s0: "st = sweep_start bw_ditherer ?src" by simp
  have cur: "current_rgb (image_array (sweep_start bw_ditherer ?src)) 0 0 = (100, 100, 100)"
    by (simp add: sweep_start_def Let_def astype_float64_def image_to_array_def hsv_image_def
          current_rgb_def astype_int_def bands_of_def)
  from look have "idx = 0" by (simp add: s0 cur bw_lookup_100)
  with px have p0: "pixel_at out 0 0 = (0, 0, 0)"
    by (simp add: bw_ditherer_def bw_palette_def as_uint8_def)
  have run: "dither_image channels_as_lab plain_pil [hsv_image] bw_ditherer (Some 0) False
               = Inr ([hsv_image, fromarray out], 1, d')"
    by (simp add: dither_image_Some da)
  have "size_wh ([hsv_image, fromarray out] ! 1) = (1, 1)"
    "image_pixel ([hsv_image, fromarray out] ! 1) 0 0 = (0, 0, 0)"
    using shp p0 by (simp_all add: hsv_image_def)
  with run have one: "\<exists>h' res d'. dither_image channels_as_lab plain_pil [hsv_image] bw_ditherer (Some 0) False
                     = Inr (h', res, d')
          \<and> size_wh (h' ! res) = (1, 1) \<and> image_pixel (h' ! res) 0 0 = (0, 0, 0)"
    by blast
  let ?src0 = "image_to_array empty_image"
  have dep0: "depth ?src0 = Some 3" by (simp add: image_to_array_depth empty_image_def)
  from dither_array_total [OF bw_init dep0] obtain out0 d0 where
    da0: "dither_array channels_as_lab bw_ditherer ?src0 = Inr (out0, d0)"
    and shp0: "height out0 = height ?src0" "width out0 = width ?src0"
    by blast
  have run0: "dither_image channels_as_lab plain_pil [empty_image] bw_ditherer (Some 0) False
               = Inr ([empty_image, fromarray out0], 1, d0)"
    by (simp add: dither_image_Some da0)
  have "size_wh ([empty_image, fromarray out0] ! 1) = (0, 0)"
    using shp0 by (simp add: empty_image_def)
  with run0 have two: "\<exists>h' res d'. dither_image channels_as_lab plain_pil [empty_image] bw_ditherer (Some 0) False
                     = Inr (h', res, d')
          \<and> size_wh (h' ! res) = (0, 0)"
    by blast
  from v one v0 two show ?thesis by blast
qed

text \<open>
  Claim C6, amended. \<open>dither_image\<close> rejects an absent image with an exception
  before any pixel is processed and returns no output: \<open>AttributeError\<close> when it
  resizes, \<open>ValueError\<close> otherwise. It checks neither the dimensions nor the mode.
  Zero dimensions and unsupported modes are rejected by
  \<open>validate_image_for_processing\<close>, which also rejects an absent image, for a caller
  that runs it first.
\<close>

theorem invalid_images_and_validation:
  "dither_image rgb_to_lab pil h d None resize = Inl (if resize then AttributeError else ValueError)
   \<and> validate_image_for_processing None = (False, ''Image is None'')
   \<and> (fst (size_wh im) = 0 \<or> snd (size_wh im) = 0 \<longrightarrow>
        validate_image_for_processing (Some im) = (False, ''Image has zero dimensions''))
   \<and> (mode im \<notin> set [''RGB'', ''RGBA'', ''L'', ''P''] \<longrightarrow>
        \<not> fst (validate_image_for_processing (Some im)))"
  by (simp add: dither_image_None validate_image_for_processing_def)

theorem invalid_images_and_validation_witness:
  "mode hsv_image \<notin> set [''RGB'', ''RGBA'', ''L'', ''P'']
   \<and> \<not> fst (validate_image_for_processing (Some hsv_image))
   \<and> fst (size_wh empty_image) = 0
   \<and> validate_image_for_processing (Some empty_image) = (False, ''Image has zero dimensions'')
   \<and> dither_image channels_as_lab plain_pil [hsv_image] bw_ditherer None True = Inl AttributeError
   \<and> dither_image channels_as_lab plain_pil [hsv_image] bw_ditherer None False = Inl ValueError"
  using invalid_images_and_validation [of channels_as_lab plain_pil "[hsv_image]" bw_ditherer True hsv_image]
        invalid_images_and_validation [of channels_as_lab plain_pil "[hsv_image]" bw_ditherer False empty_image]
  by (simp add: hsv_image_def empty_image_def)

subsection \<open>Tile grids\<close>

text \<open>
  Claim C7. On an N by M tile grid, an N outside 1..8 fails with
  \<open>InvalidDimensionsError\<close> naming the width bound, an M outside 1..8 (N being in
  range) with one naming the height bound; within the range the output has exactly
  \<open>(N \<sqdot> TILE_SIZE, M \<sqdot> TILE_SIZE)\<close> pixels. In particular a 9 by 1 grid fails and a
  2 by 1 grid gives an output of \<open>(2 \<sqdot> TILE_SIZE, TILE_SIZE)\<close> pixels.
\<close>

theorem tile_grid_bounds:
  assumes "MinecraftPalette_init rgb_to_lab colors = Inr (palette d)"
  shows "(n < 1 \<or> 8 < n \<longrightarrow>
            dither_image_tiles rgb_to_lab pil h d img n m = Inl (InvalidDimensionsError ''tileGridWidth''))
       \<and> (1 \<le> n \<and> n \<le> 8 \<and> (m < 1 \<or> 8 < m) \<longrightarrow>
            dither_image_tiles rgb_to_lab pil h d img n m = Inl (InvalidDimensionsError ''tileGridHeight''))
       \<and> (1 \<le> n \<and> n \<le> 8 \<and> 1 \<le> m \<and> m \<le> 8 \<longrightarrow>
            (\<exists>h' res d'. dither_image_tiles rgb_to_lab pil h d (Some r) n m = Inr (h', res, d')
                \<and> size_wh (h' ! res) = (nat n * TILE_SIZE, nat m * TILE_SIZE)))
       \<and> dither_image_tiles rgb_to_lab pil h d img 9 1 = Inl (InvalidDimensionsError ''tileGridWidth'')
       \<and> (\<exists>h' res d'. dither_image_tiles rgb_to_lab pil h d (Some r) 2 1 = Inr (h', res, d')
                \<and> size_wh (h' ! res) = (2 * TILE_SIZE, TILE_SIZE))"
proof -
  have ok: "\<exists>h' res d'. dither_image_tiles rgb_to_lab pil h d (Some r) n m = Inr (h', res, d')
                \<and> size_wh (h' ! res) = (nat n * TILE_SIZE, nat m * TILE_SIZE)"
    if "1 \<le> n \<and> n \<le> 8 \<and> 1 \<le> m \<and> m \<le> 8" for n m
  proof -
    let ?canvas = "(nat n * TILE_SIZE, nat m * TILE_SIZE)"
    let ?src = "resized_image pil (h ! r) ?canvas"
    let ?h1 = "h @ [thumbnail_of pil (h ! r) ?canvas, ?src]"
    have tc: "tile_canvas n m = Inr ?canvas"
      using that by (simp add: tile_canvas_def MIN_TILES_def MAX_TILES_def)
    have dep: "depth (image_to_array ?src) = Some 3"
      by (simp add: image_to_array_depth3)
    from dither_array_total [OF assms dep] obtain out d' where
      da: "dither_array rgb_to_lab d (image_to_array ?src) = Inr (out, d')"
          "height out = snd ?canvas" "width out = fst ?canvas"
      by auto
    have src: "?h1 ! Suc (length h) = ?src" by (simp add: nth_append)
    have run: "dither_image_tiles rgb_to_lab pil h d (Some r) n m
                 = Inr (?h1 @ [fromarray out], length ?h1, d')"
      using da(1) src
      by (simp add: dither_image_tiles_def tc resize_for_minecraft_Some dither_image_Some)
    have "size_wh ((?h1 @ [fromarray out]) ! length ?h1) = ?canvas"
      using da(2,3) by (simp add: nth_append)
    with run show ?thesis by blast
  qed
  have w: "n < 1 \<or> 8 < n \<longrightarrow>
            dither_image_tiles rgb_to_lab pil h d img n m = Inl (InvalidDimensionsError ''tileGridWidth'')"
    by (simp add: dither_image_tiles_def tile_canvas_def MIN_TILES_def MAX_TILES_def)
  have hh: "1 \<le> n \<and> n \<le> 8 \<and> (m < 1 \<or> 8 < m) \<longrightarrow>
            dither_image_tiles rgb_to_lab pil h d img n m = Inl (InvalidDimensionsError ''tileGridHeight'')"
    by (auto simp: dither_image_tiles_def tile_canvas_def MIN_TILES_def MAX_TILES_def)
  have nine: "dither_image_tiles rgb_to_lab pil h d img 9 1 = Inl (InvalidDimensionsError ''tileGridWidth'')"
    by (simp add: dither_image_tiles_def tile_canvas_def MIN_TILES_def MAX_TILES_def)
  have two: "\<exists>h' res d'. dither_image_tiles rgb_to_lab pil h d (Some r) 2 1 = Inr (h', res, d')
                \<and> size_wh (h' ! res) = (2 * TILE_SIZE, TILE_SIZE)"
    using ok [of 2 1] by simp
  from w hh ok [of n m] nine two show ?thesis by blast
qed

theorem tile_grid_bounds_witness:
  "MinecraftPalette_init channels_as_lab [''#000000'', ''#FFFFFF''] = Inr (palette bw_ditherer)
   \<and> dither_image_tiles channels_as_lab plain_pil [gray_image] bw_ditherer (Some 0) 9 1
       = Inl (InvalidDimensionsError ''tileGridWidth'')
   \<and> dither_image_tiles channels_as_lab plain_pil [gray_image] bw_ditherer (Some 0) 1 0
       = Inl (InvalidDimensionsError ''tileGridHeight'')
   \<and> (\<exists>h' res d'. dither_image_tiles channels_as_lab plain_pil [gray_image] bw_ditherer (Some 0) 2 1
                     = Inr (h', res, d')
          \<and> size_wh (h' ! res) = (256, 128))"
  using bw_init
    tile_grid_bounds [OF bw_init, of 9 plain_pil "[gray_image]" "Some 0" 1 0]
    tile_grid_bounds [OF bw_init, of 1 plain_pil "[gray_image]" "Some 0" 0 0]
  by (simp add: TILE_SIZE_def)

end
